theory Spec2Isabelle
  imports Complex_Main "HOL-Library.Monad_Syntax"
begin

section \<open>Numbers and the Math built-ins\<close>

text \<open>
  A JavaScript number is an IEEE 754 binary64 value. A finite one is modelled by the
  real number it denotes, and a result that is not finite (\<^verbatim>\<open>-Infinity\<close>,
  \<^verbatim>\<open>Infinity\<close>, \<^verbatim>\<open>NaN\<close>) is \<^term>\<open>None\<close>. The program never divides by an
  infinite value, so an operation with an operand that is not finite has a result that is
  not finite, and \<^term>\<open>None\<close> is passed on. The sign of zero is not modelled.

  An arithmetic operation gives the exact result rounded to the nearest binary64 value,
  a tie going to the even significand; a result of magnitude \<open>2 ^ 1024\<close> or more is
  infinite. The finite binary64 values are the \<open>m * 2 ^ e\<close> with \<open>\<bar>m\<bar> < 2 ^ 53\<close> and
  \<open>e\<close> from \<open>- 1074\<close> to \<open>971\<close>.
\<close>

definition pow2 :: "int \<Rightarrow> real" where
  "pow2 k = (if 0 \<le> k then 2 ^ nat k else 1 / 2 ^ nat (- k))"

text \<open>The binary exponent of a magnitude: the least \<open>k\<close> from \<open>- 1022\<close> on with
  \<open>x < 2 ^ (k + 1)\<close>, and \<open>1023\<close> when there is none up to there. Below \<open>2 ^ (- 1022)\<close>
  lie the subnormal values, which share the exponent \<open>- 1022\<close>.\<close>

fun find_exp :: "nat \<Rightarrow> int \<Rightarrow> real \<Rightarrow> int" where
  "find_exp 0 k x = k"
| "find_exp (Suc n) k x = (if x < pow2 (k + 1) then k else find_exp n (k + 1) x)"

definition expo :: "real \<Rightarrow> int" where
  "expo x = find_exp 2045 (- 1022) \<bar>x\<bar>"

definition round_half_even :: "real \<Rightarrow> int" where
  "round_half_even q =
     (let f = \<lfloor>q\<rfloor>; r = q - of_int f
      in if r < 1 / 2 then f else if 1 / 2 < r then f + 1 else if even f then f else f + 1)"

text \<open>Rounding a real to binary64: to a multiple of the unit in the last place of its
  binade, which is \<open>2 ^ (expo x - 52)\<close>. A decimal literal of the source, such as \<^verbatim>\<open>3.6\<close>,
  denotes the rounding of its decimal value.\<close>

definition to_double :: "real \<Rightarrow> real option" where
  "to_double x =
     (let u = pow2 (expo x - 52);
          y = of_int (round_half_even (x / u)) * u
      in if \<bar>y\<bar> < pow2 1024 then Some y else None)"

text \<open>The operators \<^verbatim>\<open>+\<close>, \<^verbatim>\<open>-\<close>, \<^verbatim>\<open>*\<close> and \<^verbatim>\<open>/\<close> on finite operands.
  A division by zero is infinite or \<^verbatim>\<open>NaN\<close>.\<close>

definition fl_add :: "real \<Rightarrow> real \<Rightarrow> real option" where
  "fl_add a b = to_double (a + b)"

definition fl_sub :: "real \<Rightarrow> real \<Rightarrow> real option" where
  "fl_sub a b = to_double (a - b)"

definition fl_mul :: "real \<Rightarrow> real \<Rightarrow> real option" where
  "fl_mul a b = to_double (a * b)"

definition fl_div :: "real \<Rightarrow> real \<Rightarrow> real option" where
  "fl_div a b = (if b = 0 then None else to_double (a / b))"

text \<open>\<^verbatim>\<open>Math.round(x)\<close>: the nearest integer, a tie going towards plus infinity.
  It is exact: the result is a binary64 value whenever \<open>x\<close> is one.\<close>

definition Math_round :: "real \<Rightarrow> int" where
  "Math_round x = \<lfloor>x + 1 / 2\<rfloor>"

text \<open>\<^verbatim>\<open>Math.max(...xs)\<close> and \<^verbatim>\<open>Math.min(...xs)\<close>; on no arguments they are
  \<^verbatim>\<open>-Infinity\<close> and \<^verbatim>\<open>Infinity\<close>.\<close>

fun Math_max :: "real list \<Rightarrow> real option" where
  "Math_max [] = None"
| "Math_max (x # xs) = Some (fold max xs x)"

fun Math_min :: "real list \<Rightarrow> real option" where
  "Math_min [] = None"
| "Math_min (x # xs) = Some (fold min xs x)"

text \<open>\<^verbatim>\<open>xs.reduce((a, b) => a + b, 0)\<close>: the accumulator \<open>a\<close> starts at \<open>0\<close> and takes
  the elements from the left.\<close>

definition reduce_add :: "real list \<Rightarrow> real option" where
  "reduce_add xs = fold (\<lambda>b a. do { a' \<leftarrow> a; fl_add a' b }) xs (Some 0)"

text \<open>\<^verbatim>\<open>xs.reduce((a, b) => a + b, 0) / xs.length\<close>; on the empty array it is
  \<^verbatim>\<open>0 / 0\<close>, which is \<^verbatim>\<open>NaN\<close>.\<close>

definition mean :: "real list \<Rightarrow> real option" where
  "mean xs = do { s \<leftarrow> reduce_add xs; fl_div s (real (length xs)) }"

section \<open>Provider payloads\<close>

record main_data =
  temp :: real
  feels_like :: real
  humidity :: real
  pressure :: real

record wind_data =
  speed :: real

text \<open>An element of the \<^verbatim>\<open>weather\<close> array; \<open>wmain\<close> is its field \<^verbatim>\<open>main\<close>.\<close>

record weather_cond =
  wmain :: string
  description :: string
  icon :: string

text \<open>The fields shared by the current-conditions payload and a forecast item.\<close>

record observation =
  main :: main_data
  weather :: "weather_cond list"
  wind :: wind_data

record forecast_item = observation +
  dt :: int

text \<open>\<^verbatim>\<open>xs[0]\<close> of an array: \<^verbatim>\<open>undefined\<close> (here \<^term>\<open>None\<close>) when the array is empty.\<close>

definition first_elem :: "'a list \<Rightarrow> 'a option" where
  "first_elem xs = (case xs of [] \<Rightarrow> None | x # _ \<Rightarrow> Some x)"

section \<open>Forecast aggregation\<close>

text \<open>
  \<^verbatim>\<open>dailyData\<close> is a plain object used as a dictionary. Its keys are the results of
  \<^verbatim>\<open>Date.prototype.toDateString\<close> (such as \<^verbatim>\<open>Mon Nov 02 2026\<close>), which are never
  array indices and never names inherited from \<^verbatim>\<open>Object.prototype\<close>, so the object
  keeps its keys in insertion order and a lookup of an absent key is \<^verbatim>\<open>undefined\<close>.
  It is modelled as an association list in insertion order.

  \<^verbatim>\<open>toDateString\<close> depends on the time zone of the execution environment; it is a
  parameter of the model, taking the time value of the \<^verbatim>\<open>Date\<close> in milliseconds.
  A \<^verbatim>\<open>Date\<close> object is modelled by its time value.
\<close>

record day_acc =
  d_date :: int
  d_temps :: "real list"
  d_weather :: "weather_cond option"
  d_humidity :: "real list"
  d_windSpeed :: "real list"

record daily_forecast =
  date :: int
  maxTemp :: "int option"
  minTemp :: "int option"
  f_weather :: "weather_cond option"
  avgHumidity :: "int option"
  avgWindSpeed :: "int option"

text \<open>\<^verbatim>\<open>obj[k]\<close> read, and the update in place of the object stored under \<^verbatim>\<open>k\<close>.\<close>

fun obj_modify :: "'k \<Rightarrow> ('v \<Rightarrow> 'v) \<Rightarrow> ('k \<times> 'v) list \<Rightarrow> ('k \<times> 'v) list" where
  "obj_modify k f [] = []"
| "obj_modify k f ((k', v) # kvs) =
     (if k' = k then (k', f v) # kvs else (k', v) # obj_modify k f kvs)"

text \<open>The body of the \<^verbatim>\<open>forEach\<close> of \<^verbatim>\<open>groupForecastByDay\<close>.\<close>

definition group_step ::
  "(int \<Rightarrow> 'k) \<Rightarrow> forecast_item \<Rightarrow> ('k \<times> day_acc) list \<Rightarrow> ('k \<times> day_acc) list" where
  "group_step toDateString item dailyData =
     (let date = dt item * 1000;
          dateKey = toDateString date;
          dailyData' =
            (if map_of dailyData dateKey = None
             then dailyData @
                    [(dateKey, \<lparr>d_date = date, d_temps = [],
                                d_weather = first_elem (weather item),
                                d_humidity = [], d_windSpeed = []\<rparr>)]
             else dailyData)
      in obj_modify dateKey
           (\<lambda>d. d\<lparr>d_temps := d_temps d @ [temp (main item)],
                   d_humidity := d_humidity d @ [humidity (main item)],
                   d_windSpeed := d_windSpeed d @ [speed (wind item)]\<rparr>)
           dailyData')"

definition group_days ::
  "(int \<Rightarrow> 'k) \<Rightarrow> forecast_item list \<Rightarrow> ('k \<times> day_acc) list" where
  "group_days toDateString forecastList = fold (group_step toDateString) forecastList []"

text \<open>The function mapped over \<^verbatim>\<open>Object.values(dailyData)\<close>.\<close>

definition summarise :: "day_acc \<Rightarrow> daily_forecast" where
  "summarise day =
     \<lparr>date = d_date day,
      maxTemp = map_option Math_round (Math_max (d_temps day)),
      minTemp = map_option Math_round (Math_min (d_temps day)),
      f_weather = d_weather day,
      avgHumidity = map_option Math_round (mean (d_humidity day)),
      avgWindSpeed =
        map_option Math_round
          (do { m \<leftarrow> mean (d_windSpeed day); k \<leftarrow> to_double 3.6; fl_mul m k })\<rparr>"

definition groupForecastByDay ::
  "(int \<Rightarrow> 'k) \<Rightarrow> forecast_item list \<Rightarrow> daily_forecast list" where
  "groupForecastByDay toDateString forecastList =
     map summarise (map snd (group_days toDateString forecastList))"


subsection \<open>What the grouping computes, stated on the input\<close>

text \<open>The key under which an item is filed, the items of one day in input order, the
  keys in the order of their first occurrence, and the accumulator that a non-empty run
  of items of one day leaves behind.\<close>

definition dayKey :: "(int \<Rightarrow> 'k) \<Rightarrow> forecast_item \<Rightarrow> 'k" where
  "dayKey toDateString item = toDateString (dt item * 1000)"

definition samples_of_day ::
  "(int \<Rightarrow> 'k) \<Rightarrow> 'k \<Rightarrow> forecast_item list \<Rightarrow> forecast_item list" where
  "samples_of_day toDateString k forecastList =
     filter (\<lambda>item. dayKey toDateString item = k) forecastList"

definition first_keys :: "'k list \<Rightarrow> 'k list" where
  "first_keys ks = rev (remdups (rev ks))"

definition first_index :: "(int \<Rightarrow> 'k) \<Rightarrow> forecast_item list \<Rightarrow> 'k \<Rightarrow> nat" where
  "first_index toDateString forecastList k =
     length (takeWhile (\<lambda>item. dayKey toDateString item \<noteq> k) forecastList)"

definition push_item :: "forecast_item \<Rightarrow> day_acc \<Rightarrow> day_acc" where
  "push_item item d =
     d\<lparr>d_temps := d_temps d @ [temp (main item)],
       d_humidity := d_humidity d @ [humidity (main item)],
       d_windSpeed := d_windSpeed d @ [speed (wind item)]\<rparr>"

definition acc_of :: "forecast_item list \<Rightarrow> day_acc" where
  "acc_of g =
     \<lparr>d_date = (case g of [] \<Rightarrow> 0 | item # _ \<Rightarrow> dt item * 1000),
      d_temps = map (\<lambda>item. temp (main item)) g,
      d_weather = (case g of [] \<Rightarrow> None | item # _ \<Rightarrow> first_elem (weather item)),
      d_humidity = map (\<lambda>item. humidity (main item)) g,
      d_windSpeed = map (\<lambda>item. speed (wind item)) g\<rparr>"

text \<open>The mean as binary64 arithmetic computes it: the sum taken from the left,
  starting at \<open>0\<close> and rounded after every addition, divided by the number of values.\<close>

fun sum_from_left :: "real option \<Rightarrow> real list \<Rightarrow> real option" where
  "sum_from_left acc [] = acc"
| "sum_from_left acc (x # xs) = sum_from_left (do { a \<leftarrow> acc; fl_add a x }) xs"

definition binary64_mean :: "real list \<Rightarrow> real option" where
  "binary64_mean xs = do { s \<leftarrow> sum_from_left (Some 0) xs; fl_div s (real (length xs)) }"

text \<open>An environment whose local time zone is UTC: the date string is determined by the
  number of the day since the epoch, which stands for the string here.\<close>

definition utcDay :: "int \<Rightarrow> int" where
  "utcDay ms = ms div 86400000"

section \<open>Unit conversion\<close>

text \<open>\<^verbatim>\<open>(celsius * 9/5) + 32\<close> is a product, a quotient and a sum, in this order, and
  \<^verbatim>\<open>(fahrenheit - 32) * 5/9\<close> a difference, a product and a quotient; each of them
  rounds to binary64.\<close>

definition celsiusToFahrenheit :: "real \<Rightarrow> real option" where
  "celsiusToFahrenheit celsius =
     do { a \<leftarrow> fl_mul celsius 9; b \<leftarrow> fl_div a 5; fl_add b 32 }"

definition fahrenheitToCelsius :: "real \<Rightarrow> real option" where
  "fahrenheitToCelsius fahrenheit =
     do { a \<leftarrow> fl_sub fahrenheit 32; b \<leftarrow> fl_mul a 5; fl_div b 9 }"

section \<open>Global state, page elements and the environment\<close>

datatype temperature_unit = Celsius | Fahrenheit

record current_data = observation +
  name :: string
  country :: string
  coord_lat :: real
  coord_lon :: real
  visibility :: real

text \<open>\<^verbatim>\<open>currentLocation\<close>; \<^term>\<open>None\<close> is \<^verbatim>\<open>null\<close>.\<close>

record location =
  lat :: "real option"
  lon :: "real option"

text \<open>A temperature text such as \<^verbatim>\<open>21\<degree>C\<close>: the number and the letter after the degree sign.\<close>

record temp_text =
  number :: "int option"
  letter :: string

record forecast_card =
  card_today :: bool
  card_icon :: string
  forecast_high :: temp_text
  forecast_low :: temp_text
  forecast_desc :: string
  card_humidity :: "int option"
  card_wind :: "int option"

text \<open>
  The text of the page elements the program writes. The elements that show a formatting
  of the wall clock (current date, sunrise, sunset, last update) and the ones set to a
  constant (UV index, air quality) are left out.
\<close>

record elements =
  el_currentLocation :: string
  el_currentTemp :: temp_text
  el_weatherIcon :: string
  el_weatherDescription :: string
  el_feelsLike :: temp_text
  el_humidity :: real
  el_windSpeed :: "int option"
  el_pressure :: real
  el_visibility :: "int option"
  el_forecastContainer :: "forecast_card list"
  el_errorText :: string
  el_errorMessage_hidden :: bool
  el_loading_hidden :: bool
  el_celsiusBtn_active :: bool
  el_fahrenheitBtn_active :: bool

text \<open>A listener is identified by its target, its event type and its callback;
  \<^verbatim>\<open>addEventListener\<close> ignores a listener that is already registered, which happens
  for the named callbacks \<^verbatim>\<open>handleSearch\<close> and \<^verbatim>\<open>getCurrentLocation\<close>. The closures
  of the first \<^verbatim>\<open>DOMContentLoaded\<close> listener and those of
  \<^verbatim>\<open>initializeEventListeners\<close> are different callbacks.\<close>

datatype listener =
    SearchBtn_click_handleSearch
  | CityInput_keypress_first
  | LocationBtn_click_getCurrentLocation
  | CelsiusBtn_click_first
  | FahrenheitBtn_click_first
  | CityInput_keypress_init
  | CelsiusBtn_click_init
  | FahrenheitBtn_click_init
  | CityInput_focus_init

text \<open>The operations started on the external collaborators, in order.\<close>

datatype operation =
    Fetch_weather_by_city string
  | Fetch_weather_by_coordinates real real
  | Fetch_forecast_by_coordinates real real
  | Geolocation_request

record state =
  currentWeatherData :: "(current_data \<times> forecast_item list) option"
  currentUnit :: temperature_unit
  currentLocation :: location
  els :: elements
  listeners :: "listener list"
  started :: "operation list"

text \<open>What awaiting \<^verbatim>\<open>fetch(url)\<close>, checking \<^verbatim>\<open>response.ok\<close> and awaiting
  \<^verbatim>\<open>response.json()\<close> gives: the fetch rejects, the status is not a success, the body
  does not parse, or a payload. The forecast payload is its field \<^verbatim>\<open>list\<close>.\<close>

datatype 'a response = Rejected | Not_ok | Malformed | Payload 'a

text \<open>The environment: the configured key (\<^term>\<open>None\<close> when missing), whether
  \<^verbatim>\<open>navigator.geolocation\<close> exists, the answers of the provider, and the date
  formatting of the platform. An async function is run to its end in one step;
  interleavings of several pending requests are not modelled.\<close>

record 'k env =
  API_CONFIG_key :: "string option"
  navigator_geolocation :: bool
  weather_by_city :: "string \<Rightarrow> current_data response"
  weather_by_coordinates :: "real \<Rightarrow> real \<Rightarrow> current_data response"
  forecast_by_coordinates :: "real \<Rightarrow> real \<Rightarrow> forecast_item list response"
  toDateString :: "int \<Rightarrow> 'k"

datatype js_error = TypeError

section \<open>Page state\<close>

definition showLoading :: "state \<Rightarrow> state" where
  "showLoading st =
     st\<lparr>els := (els st)\<lparr>el_loading_hidden := False, el_errorMessage_hidden := True\<rparr>\<rparr>"

definition hideLoading :: "state \<Rightarrow> state" where
  "hideLoading st = st\<lparr>els := (els st)\<lparr>el_loading_hidden := True\<rparr>\<rparr>"

definition showError :: "string \<Rightarrow> state \<Rightarrow> state" where
  "showError message st =
     st\<lparr>els := (els st)\<lparr>el_errorText := message, el_errorMessage_hidden := False,
                          el_loading_hidden := True\<rparr>\<rparr>"

definition hideError :: "state \<Rightarrow> state" where
  "hideError st = st\<lparr>els := (els st)\<lparr>el_errorMessage_hidden := True\<rparr>\<rparr>"

section \<open>Rendering\<close>

definition unit_letter :: "temperature_unit \<Rightarrow> string" where
  "unit_letter u = (if u = Celsius then ''C'' else ''F'')"

definition iconMap_current :: "(string \<times> string) list" where
  "iconMap_current =
     [(''01d'', ''fas fa-sun''), (''01n'', ''fas fa-moon''),
      (''02d'', ''fas fa-cloud-sun''), (''02n'', ''fas fa-cloud-moon''),
      (''03d'', ''fas fa-cloud''), (''03n'', ''fas fa-cloud''),
      (''04d'', ''fas fa-clouds''), (''04n'', ''fas fa-clouds''),
      (''09d'', ''fas fa-cloud-rain''), (''09n'', ''fas fa-cloud-rain''),
      (''10d'', ''fas fa-cloud-sun-rain''), (''10n'', ''fas fa-cloud-moon-rain''),
      (''11d'', ''fas fa-bolt''), (''11n'', ''fas fa-bolt''),
      (''13d'', ''fas fa-snowflake''), (''13n'', ''fas fa-snowflake''),
      (''50d'', ''fas fa-smog''), (''50n'', ''fas fa-smog'')]"

definition updateWeatherIcon :: "string \<Rightarrow> string \<Rightarrow> state \<Rightarrow> state" where
  "updateWeatherIcon iconCode mainWeather st =
     (let iconClass = (case map_of iconMap_current iconCode of
                         Some c \<Rightarrow> c | None \<Rightarrow> ''fas fa-question-circle'')
      in st\<lparr>els := (els st)\<lparr>el_weatherIcon := iconClass @ '' weather-icon''\<rparr>\<rparr>)"

text \<open>\<^verbatim>\<open>updateCurrentWeatherUI\<close>. Reading \<^verbatim>\<open>data.weather[0].icon\<close> throws a TypeError
  when the array is empty; the elements written before stay written.\<close>

definition updateCurrentWeatherUI :: "current_data \<Rightarrow> state \<Rightarrow> state \<times> js_error option" where
  "updateCurrentWeatherUI data st =
     (let st1 = st\<lparr>els := (els st)\<lparr>el_currentLocation := name data @ '', '' @ country data\<rparr>\<rparr>;
          temp' = Math_round (temp (main data));
          st2 = st1\<lparr>els := (els st1)
                  \<lparr>el_currentTemp :=
                     \<lparr>number = Some temp', letter = unit_letter (currentUnit st1)\<rparr>\<rparr>\<rparr>
      in case first_elem (weather data) of
           None \<Rightarrow> (st2, Some TypeError)
         | Some w \<Rightarrow>
             (let st3 = updateWeatherIcon (icon w) (wmain w) st2;
                  st4 = st3\<lparr>els := (els st3)
                    \<lparr>el_weatherDescription := description w,
                     el_feelsLike :=
                       \<lparr>number = Some (Math_round (feels_like (main data))),
                        letter = unit_letter (currentUnit st3)\<rparr>,
                     el_humidity := humidity (main data),
                     el_windSpeed :=
                       map_option Math_round
                         (do { k \<leftarrow> to_double 3.6; fl_mul (speed (wind data)) k }),
                     el_pressure := pressure (main data),
                     el_visibility :=
                       map_option Math_round (fl_div (visibility data) 1000)\<rparr>\<rparr>
              in (st4, None)))"

definition iconMap_forecast :: "(string \<times> string) list" where
  "iconMap_forecast =
     [(''01d'', ''sun''), (''01n'', ''moon''),
      (''02d'', ''cloud-sun''), (''02n'', ''cloud-moon''),
      (''03d'', ''cloud''), (''03n'', ''cloud''),
      (''04d'', ''clouds''), (''04n'', ''clouds''),
      (''09d'', ''cloud-rain''), (''09n'', ''cloud-rain''),
      (''10d'', ''cloud-sun-rain''), (''10n'', ''cloud-moon-rain''),
      (''11d'', ''bolt''), (''11n'', ''bolt''),
      (''13d'', ''snowflake''), (''13n'', ''snowflake''),
      (''50d'', ''smog''), (''50n'', ''smog'')]"

definition getWeatherIconClass :: "string \<Rightarrow> string" where
  "getWeatherIconClass iconCode =
     (case map_of iconMap_forecast iconCode of Some c \<Rightarrow> c | None \<Rightarrow> ''question-circle'')"

text \<open>\<^verbatim>\<open>createForecastCard\<close>; \<^verbatim>\<open>forecast.weather.icon\<close> throws when
  \<^verbatim>\<open>forecast.weather\<close> is undefined.\<close>

definition createForecastCard ::
  "temperature_unit \<Rightarrow> daily_forecast \<Rightarrow> nat \<Rightarrow> js_error + forecast_card" where
  "createForecastCard unit forecast index =
     (let tempUnit = unit_letter unit;
          maxTemp' = (if unit = Celsius then map_option real_of_int (maxTemp forecast)
                      else do { c \<leftarrow> maxTemp forecast; celsiusToFahrenheit (real_of_int c) });
          minTemp' = (if unit = Celsius then map_option real_of_int (minTemp forecast)
                      else do { c \<leftarrow> minTemp forecast; celsiusToFahrenheit (real_of_int c) })
      in case f_weather forecast of
           None \<Rightarrow> Inl TypeError
         | Some w \<Rightarrow>
             Inr \<lparr>card_today = (index = 0),
                  card_icon = getWeatherIconClass (icon w),
                  forecast_high = \<lparr>number = map_option Math_round maxTemp', letter = tempUnit\<rparr>,
                  forecast_low = \<lparr>number = map_option Math_round minTemp', letter = tempUnit\<rparr>,
                  forecast_desc = description w,
                  card_humidity = avgHumidity forecast,
                  card_wind = avgWindSpeed forecast\<rparr>)"

text \<open>The \<^verbatim>\<open>forEach\<close> of \<^verbatim>\<open>updateForecastUI\<close>: a card is appended to the container
  as soon as it is built, and a throw ends the loop.\<close>

fun append_cards ::
  "daily_forecast list \<Rightarrow> nat \<Rightarrow> state \<Rightarrow> state \<times> js_error option" where
  "append_cards [] index st = (st, None)"
| "append_cards (forecast # rest) index st =
     (case createForecastCard (currentUnit st) forecast index of
        Inl e \<Rightarrow> (st, Some e)
      | Inr forecastCard \<Rightarrow>
          append_cards rest (Suc index)
            (st\<lparr>els := (els st)
                 \<lparr>el_forecastContainer := el_forecastContainer (els st) @ [forecastCard]\<rparr>\<rparr>))"

definition updateForecastUI ::
  "'k env \<Rightarrow> forecast_item list \<Rightarrow> state \<Rightarrow> state \<times> js_error option" where
  "updateForecastUI env data st =
     (let st1 = st\<lparr>els := (els st)\<lparr>el_forecastContainer := []\<rparr>\<rparr>;
          dailyForecasts = groupForecastByDay (toDateString env) data
      in append_cards (take 5 dailyForecasts) 0 st1)"


section \<open>Queries\<close>

text \<open>\<^verbatim>\<open>getWeatherByCoordinates\<close>. Every throw inside its \<^verbatim>\<open>try\<close> block ends in the
  \<^verbatim>\<open>catch\<close>, which shows one message.\<close>

definition getWeatherByCoordinates ::
  "'k env \<Rightarrow> real \<Rightarrow> real \<Rightarrow> string option \<Rightarrow> state \<Rightarrow> state" where
  "getWeatherByCoordinates env lat' lon' cityName st =
     (let catch = showError ''Unable to fetch weather data. Please try again.'';
          st1 = st\<lparr>started := started st @ [Fetch_weather_by_coordinates lat' lon']\<rparr>
      in case weather_by_coordinates env lat' lon' of
           Payload currentData \<Rightarrow>
             (let st2 = st1\<lparr>started := started st1 @ [Fetch_forecast_by_coordinates lat' lon']\<rparr>
              in case forecast_by_coordinates env lat' lon' of
                   Payload forecastData \<Rightarrow>
                     (let st3 = st2\<lparr>currentWeatherData := Some (currentData, forecastData)\<rparr>
                      in case updateCurrentWeatherUI currentData st3 of
                           (st4, Some e) \<Rightarrow> catch st4
                         | (st4, None) \<Rightarrow>
                             (case updateForecastUI env forecastData st4 of
                                (st5, Some e) \<Rightarrow> catch st5
                              | (st5, None) \<Rightarrow> hideError (hideLoading st5)))
                 | _ \<Rightarrow> catch st2)
         | _ \<Rightarrow> catch st1)"

definition city_not_found_message :: "string \<Rightarrow> string" where
  "city_not_found_message city =
     ''Unable to find weather data for '' @ [CHR 0x22] @ city @ [CHR 0x22] @
     ''. Please check the city name.''"

definition getWeatherByCity :: "'k env \<Rightarrow> string \<Rightarrow> state \<Rightarrow> state" where
  "getWeatherByCity env city st =
     (let st1 = showLoading st;
          st2 = st1\<lparr>started := started st1 @ [Fetch_weather_by_city city]\<rparr>
      in case weather_by_city env city of
           Payload data \<Rightarrow>
             getWeatherByCoordinates env (coord_lat data) (coord_lon data) (Some city)
               (st2\<lparr>currentLocation :=
                      \<lparr>lat = Some (coord_lat data), lon = Some (coord_lon data)\<rparr>\<rparr>)
         | _ \<Rightarrow> showError (city_not_found_message city) st2)"

text \<open>\<^verbatim>\<open>getCurrentLocation\<close> starts the request; the platform answers later through one
  of the two callbacks.\<close>

definition getCurrentLocation :: "'k env \<Rightarrow> state \<Rightarrow> state" where
  "getCurrentLocation env st =
     (let st1 = showLoading st
      in if \<not> navigator_geolocation env
         then showError ''Geolocation is not supported by your browser'' st1
         else st1\<lparr>started := started st1 @ [Geolocation_request]\<rparr>)"

definition position_success :: "'k env \<Rightarrow> real \<Rightarrow> real \<Rightarrow> state \<Rightarrow> state" where
  "position_success env latitude longitude st =
     getWeatherByCoordinates env latitude longitude None
       (st\<lparr>currentLocation := \<lparr>lat = Some latitude, lon = Some longitude\<rparr>\<rparr>)"

datatype position_error_code = PERMISSION_DENIED | POSITION_UNAVAILABLE | TIMEOUT | Other_code

definition position_error :: "position_error_code \<Rightarrow> state \<Rightarrow> state" where
  "position_error code st =
     showError
       (case code of
          PERMISSION_DENIED \<Rightarrow> ''Location access denied by user''
        | POSITION_UNAVAILABLE \<Rightarrow> ''Location information unavailable''
        | TIMEOUT \<Rightarrow> ''Location request timed out''
        | Other_code \<Rightarrow> ''Unable to get your location'')
       st"

definition loadDefaultWeather :: "'k env \<Rightarrow> state \<Rightarrow> state" where
  "loadDefaultWeather env st =
     (if navigator_geolocation env then getCurrentLocation env st
      else getWeatherByCity env ''New York'' st)"

text \<open>\<^verbatim>\<open>String.prototype.trim\<close> on an ASCII string.\<close>

definition is_space :: "char \<Rightarrow> bool" where
  "is_space c = (c \<in> {CHR '' '', CHR 0x09, CHR 0x0A, CHR 0x0B, CHR 0x0C, CHR 0x0D})"

definition trim :: "string \<Rightarrow> string" where
  "trim s = rev (dropWhile is_space (rev (dropWhile is_space s)))"

definition handleSearch :: "'k env \<Rightarrow> string \<Rightarrow> state \<Rightarrow> state" where
  "handleSearch env cityInput_value st =
     (let city = trim cityInput_value
      in if city = [] then showError ''Please enter a city name'' st
         else getWeatherByCity env city st)"

section \<open>Temperature unit\<close>

definition switchTemperatureUnit ::
  "'k env \<Rightarrow> temperature_unit \<Rightarrow> state \<Rightarrow> state \<times> js_error option" where
  "switchTemperatureUnit env unit st =
     (if currentUnit st = unit then (st, None)
      else
        (let st1 = st\<lparr>currentUnit := unit\<rparr>;
             st2 = st1\<lparr>els := (els st1)\<lparr>el_celsiusBtn_active := (unit = Celsius),
                                         el_fahrenheitBtn_active := (unit = Fahrenheit)\<rparr>\<rparr>
         in case currentWeatherData st2 of
              None \<Rightarrow> (st2, None)
            | Some (current, forecast) \<Rightarrow>
                (case updateCurrentWeatherUI current st2 of
                   (st3, Some e) \<Rightarrow> (st3, Some e)
                 | (st3, None) \<Rightarrow> updateForecastUI env forecast st3)))"

section \<open>Start-up, events and the refresh timer\<close>

definition isApiKeyConfigured :: "'k env \<Rightarrow> bool" where
  "isApiKeyConfigured env =
     (case API_CONFIG_key env of
        None \<Rightarrow> False
      | Some k \<Rightarrow> k \<noteq> [] \<and> k \<noteq> ''YOUR_API_KEY_HERE'')"

definition checkApiKeyConfiguration :: "'k env \<Rightarrow> state \<Rightarrow> state \<times> bool" where
  "checkApiKeyConfiguration env st =
     (if \<not> isApiKeyConfigured env
      then (showError (''Please configure your OpenWeatherMap API key in the script.js file. '' @
                       ''Get your free API key at openweathermap.org'') st, False)
      else (st, True))"

definition addEventListener :: "listener \<Rightarrow> state \<Rightarrow> state" where
  "addEventListener l st =
     st\<lparr>listeners := (if l \<in> set (listeners st) then listeners st else listeners st @ [l])\<rparr>"

text \<open>The first \<^verbatim>\<open>DOMContentLoaded\<close> listener (lines 80 to 100).\<close>

definition first_DOMContentLoaded :: "'k env \<Rightarrow> state \<Rightarrow> state" where
  "first_DOMContentLoaded env st =
     loadDefaultWeather env
       (addEventListener FahrenheitBtn_click_first
         (addEventListener CelsiusBtn_click_first
           (addEventListener LocationBtn_click_getCurrentLocation
             (addEventListener CityInput_keypress_first
               (addEventListener SearchBtn_click_handleSearch st)))))"

definition initializeEventListeners :: "state \<Rightarrow> state" where
  "initializeEventListeners st =
     addEventListener CityInput_focus_init
       (addEventListener FahrenheitBtn_click_init
         (addEventListener CelsiusBtn_click_init
           (addEventListener LocationBtn_click_getCurrentLocation
             (addEventListener CityInput_keypress_init
               (addEventListener SearchBtn_click_handleSearch st)))))"

text \<open>The second \<^verbatim>\<open>DOMContentLoaded\<close> listener (lines 612 to 623).\<close>

definition second_DOMContentLoaded :: "'k env \<Rightarrow> state \<Rightarrow> state" where
  "second_DOMContentLoaded env st =
     (case checkApiKeyConfiguration env st of
        (st1, False) \<Rightarrow> st1
      | (st1, True) \<Rightarrow> loadDefaultWeather env (initializeEventListeners st1))"

text \<open>Both listeners are registered on the document; the event runs them in the order of
  their registration.\<close>

definition DOMContentLoaded :: "'k env \<Rightarrow> state \<Rightarrow> state" where
  "DOMContentLoaded env st = second_DOMContentLoaded env (first_DOMContentLoaded env st)"

text \<open>An exception that leaves a listener reaches the \<^verbatim>\<open>error\<close> listener of the window.\<close>

definition window_error :: "state \<times> js_error option \<Rightarrow> state" where
  "window_error r =
     (case r of
        (st, None) \<Rightarrow> st
      | (st, Some e) \<Rightarrow> showError ''An error occurred while loading the application.'' st)"

datatype event =
    Click_searchBtn string
  | Keypress_cityInput string string
  | Click_locationBtn
  | Click_celsiusBtn
  | Click_fahrenheitBtn

text \<open>What a registered listener does on an event; the string of a click on the search
  button or of a key press is the text of the city input at that moment, the first
  string of a key press is the key.\<close>

fun run_listener :: "'k env \<Rightarrow> event \<Rightarrow> listener \<Rightarrow> state \<Rightarrow> state" where
  "run_listener env (Click_searchBtn v) SearchBtn_click_handleSearch st = handleSearch env v st"
| "run_listener env (Keypress_cityInput k v) CityInput_keypress_first st =
     (if k = ''Enter'' then handleSearch env v st else st)"
| "run_listener env (Keypress_cityInput k v) CityInput_keypress_init st =
     (if k = ''Enter'' then handleSearch env v st else st)"
| "run_listener env Click_locationBtn LocationBtn_click_getCurrentLocation st =
     getCurrentLocation env st"
| "run_listener env Click_celsiusBtn CelsiusBtn_click_first st =
     window_error (switchTemperatureUnit env Celsius st)"
| "run_listener env Click_celsiusBtn CelsiusBtn_click_init st =
     window_error (switchTemperatureUnit env Celsius st)"
| "run_listener env Click_fahrenheitBtn FahrenheitBtn_click_first st =
     window_error (switchTemperatureUnit env Fahrenheit st)"
| "run_listener env Click_fahrenheitBtn FahrenheitBtn_click_init st =
     window_error (switchTemperatureUnit env Fahrenheit st)"
| "run_listener env ev l st = st"

definition dispatch :: "'k env \<Rightarrow> event \<Rightarrow> state \<Rightarrow> state" where
  "dispatch env ev st = fold (run_listener env ev) (listeners st) st"

text \<open>The \<^verbatim>\<open>keydown\<close> listener of the document is registered when the script loads;
  with Ctrl or Cmd and \<^verbatim>\<open>l\<close> it calls \<^verbatim>\<open>getCurrentLocation\<close>.\<close>

definition keydown_ctrl_l :: "'k env \<Rightarrow> state \<Rightarrow> state" where
  "keydown_ctrl_l env st = getCurrentLocation env st"

text \<open>A number or \<^verbatim>\<open>null\<close> in a condition: \<^verbatim>\<open>null\<close> and \<^verbatim>\<open>0\<close> are falsy.\<close>

definition truthy :: "real option \<Rightarrow> bool" where
  "truthy v = (case v of None \<Rightarrow> False | Some x \<Rightarrow> x \<noteq> 0)"

text \<open>The callback of \<^verbatim>\<open>setInterval\<close>, run every ten minutes.\<close>

definition autoRefreshTick :: "'k env \<Rightarrow> state \<Rightarrow> state" where
  "autoRefreshTick env st =
     (if truthy (lat (currentLocation st)) \<and> truthy (lon (currentLocation st))
      then (case (lat (currentLocation st), lon (currentLocation st)) of
              (Some lat', Some lon') \<Rightarrow> getWeatherByCoordinates env lat' lon' None st
            | _ \<Rightarrow> st)
      else st)"


section \<open>Concrete inputs\<close>

definition condition :: "string \<Rightarrow> weather_cond" where
  "condition c = \<lparr>wmain = c, description = c, icon = ''10d''\<rparr>"

text \<open>A forecast item at time \<open>t\<close> (seconds) with temperature, humidity, wind speed and
  one weather condition.\<close>

definition sample :: "int \<Rightarrow> real \<Rightarrow> real \<Rightarrow> real \<Rightarrow> string \<Rightarrow> forecast_item" where
  "sample t tp h ws c =
     \<lparr>main = \<lparr>temp = tp, feels_like = tp, humidity = h, pressure = 1013\<rparr>,
      weather = [condition c],
      wind = \<lparr>speed = ws\<rparr>,
      dt = t\<rparr>"

text \<open>Two items of the first day of the epoch with one item of the second day between
  them, and the same days with the later day first.\<close>

definition example_forecast :: "forecast_item list" where
  "example_forecast =
     [sample 0 10 50 5 ''rain'', sample 86400 12 60 3 ''clouds'', sample 10800 14 70 7 ''clear'']"

text \<open>The two groups and the two summaries that \<open>example_forecast\<close> gives under
  \<open>utcDay\<close>.\<close>

definition example_acc_day0 :: day_acc where
  "example_acc_day0 =
     \<lparr>d_date = 0, d_temps = [10, 14], d_weather = Some (condition ''rain''),
      d_humidity = [50, 70], d_windSpeed = [5, 7]\<rparr>"

definition example_acc_day1 :: day_acc where
  "example_acc_day1 =
     \<lparr>d_date = 86400000, d_temps = [12], d_weather = Some (condition ''clouds''),
      d_humidity = [60], d_windSpeed = [3]\<rparr>"

definition example_summary_day0 :: daily_forecast where
  "example_summary_day0 =
     \<lparr>date = 0, maxTemp = Some 14, minTemp = Some 10, f_weather = Some (condition ''rain''),
      avgHumidity = Some 60, avgWindSpeed = Some 22\<rparr>"

definition example_summary_day1 :: daily_forecast where
  "example_summary_day1 =
     \<lparr>date = 86400000, maxTemp = Some 12, minTemp = Some 12,
      f_weather = Some (condition ''clouds''), avgHumidity = Some 60, avgWindSpeed = Some 11\<rparr>"

definition example_later_day_first :: "forecast_item list" where
  "example_later_day_first = [sample 86400 12 60 3 ''clouds'', sample 0 10 50 5 ''rain'']"

text \<open>The binary64 values of the decimals 0.02 and 2.48, and two samples of one day with
  these wind speeds.\<close>

definition wind_0_02 :: real where
  "wind_0_02 = 5764607523034235 / 2 ^ 58"

definition wind_2_48 :: real where
  "wind_2_48 = 5584463537939415 / 2 ^ 51"

definition example_two_decimals :: "forecast_item list" where
  "example_two_decimals =
     [sample 0 10 50 wind_0_02 ''rain'', sample 3600 11 50 wind_2_48 ''rain'']"

text \<open>The binary64 value of the decimal 10000000.1, what \<open>celsiusToFahrenheit\<close> gives for
  it, and what \<open>fahrenheitToCelsius\<close> gives for that.\<close>

definition celsius_10000000_1 :: real where
  "celsius_10000000_1 = 5368709173687091 / 2 ^ 29"

definition fahrenheit_18000032_18 :: real where
  "fahrenheit_18000032_18 = 2415923423126487 / 2 ^ 27"

definition celsius_back :: real where
  "celsius_back = 1342177293421773 / 2 ^ 27"

text \<open>A current-conditions payload of 20 degrees Celsius, feeling like 18, for a place on
  the equator.\<close>

definition example_current :: current_data where
  "example_current =
     \<lparr>main = \<lparr>temp = 20, feels_like = 18, humidity = 55, pressure = 1012\<rparr>,
      weather = [condition ''clear''],
      wind = \<lparr>speed = 4\<rparr>,
      name = ''Pontianak'', country = ''ID'',
      coord_lat = 0, coord_lon = 109.3,
      visibility = 10000\<rparr>"

text \<open>The page and the globals when the script has loaded.\<close>

definition initial_elements :: elements where
  "initial_elements =
     \<lparr>el_currentLocation = [], el_currentTemp = \<lparr>number = None, letter = []\<rparr>,
      el_weatherIcon = [], el_weatherDescription = [],
      el_feelsLike = \<lparr>number = None, letter = []\<rparr>,
      el_humidity = 0, el_windSpeed = Some 0, el_pressure = 0, el_visibility = Some 0,
      el_forecastContainer = [], el_errorText = [],
      el_errorMessage_hidden = True, el_loading_hidden = True,
      el_celsiusBtn_active = True, el_fahrenheitBtn_active = False\<rparr>"

definition initial_state :: state where
  "initial_state =
     \<lparr>currentWeatherData = None, currentUnit = Celsius,
      currentLocation = \<lparr>lat = None, lon = None\<rparr>,
      els = initial_elements, listeners = [], started = []\<rparr>"

text \<open>A provider that answers every request with the example payloads, in an environment
  with the key of the source, with geolocation, and with UTC as its time zone; the same
  with a forecast endpoint that answers with a status that is not a success; and an
  environment with the placeholder key, where the provider refuses every request.\<close>

definition example_env :: "int env" where
  "example_env =
     \<lparr>API_CONFIG_key = Some ''9fc67b87b2bfe061d8dfb530c5a6337d'',
      navigator_geolocation = True,
      weather_by_city = (\<lambda>city. Payload example_current),
      weather_by_coordinates = (\<lambda>lat' lon'. Payload example_current),
      forecast_by_coordinates = (\<lambda>lat' lon'. Payload example_forecast),
      toDateString = utcDay\<rparr>"

definition placeholder_env :: "int env" where
  "placeholder_env =
     \<lparr>API_CONFIG_key = Some ''YOUR_API_KEY_HERE'',
      navigator_geolocation = True,
      weather_by_city = (\<lambda>city. Not_ok),
      weather_by_coordinates = (\<lambda>lat' lon'. Not_ok),
      forecast_by_coordinates = (\<lambda>lat' lon'. Not_ok),
      toDateString = utcDay\<rparr>"

definition forecast_down_env :: "int env" where
  "forecast_down_env = example_env\<lparr>forecast_by_coordinates := (\<lambda>lat' lon'. Not_ok)\<rparr>"

text \<open>The state after a successful query in Celsius.\<close>

definition loaded_state :: state where
  "loaded_state = getWeatherByCoordinates example_env 0 109.3 None initial_state"

section \<open>Properties of the rounding to binary64\<close>

lemma pow2_powi: "pow2 k = 2 powi k"
  by (simp add: pow2_def power_int_def field_simps)

lemma pow2_pos: "0 < pow2 k"
  by (simp add: pow2_powi)

lemma pow2_add: "pow2 (a + b) = pow2 a * pow2 b"
  by (simp add: pow2_powi power_int_add)

lemma pow2_mono: "a \<le> b \<Longrightarrow> pow2 a \<le> pow2 b"
  by (simp add: pow2_powi power_int_increasing)

lemma pow2_strict_mono: "a < b \<Longrightarrow> pow2 a < pow2 b"
  by (simp add: pow2_powi power_int_strict_increasing)

lemma find_exp_range: "k \<le> find_exp n k x \<and> find_exp n k x \<le> k + int n"
proof (induction n arbitrary: k)
  case 0
  show ?case by simp
next
  case (Suc n)
  from Suc.IH [of "k + 1"] show ?case by auto
qed

lemma find_exp_upper:
  "find_exp n k x < k + int n \<Longrightarrow> x < pow2 (find_exp n k x + 1)"
proof (induction n arbitrary: k)
  case 0
  then show ?case by simp
next
  case (Suc n)
  show ?case
  proof (cases "x < pow2 (k + 1)")
    case True
    then show ?thesis by simp
  next
    case False
    with Suc.prems have "find_exp n (k + 1) x < (k + 1) + int n" by simp
    from Suc.IH [OF this] False show ?thesis by simp
  qed
qed

lemma find_exp_lower:
  "k < find_exp n k x \<Longrightarrow> pow2 (find_exp n k x) \<le> x"
proof (induction n arbitrary: k)
  case 0
  then show ?case by simp
next
  case (Suc n)
  show ?case
  proof (cases "x < pow2 (k + 1)")
    case True
    with Suc.prems show ?thesis by simp
  next
    case False
    show ?thesis
    proof (cases "k + 1 < find_exp n (k + 1) x")
      case True
      from Suc.IH [OF this] False show ?thesis by simp
    next
      case no: False
      with find_exp_range [of "k + 1" n x] have "find_exp n (k + 1) x = k + 1" by simp
      with False show ?thesis by simp
    qed
  qed
qed

lemma find_exp_unique:
  assumes "k \<le> j" and "j \<le> k + int n" and "k < j \<longrightarrow> pow2 j \<le> x" and "x < pow2 (j + 1)"
  shows "find_exp n k x = j"
  using assms
proof (induction n arbitrary: k)
  case 0
  then show ?case by simp
next
  case (Suc n)
  show ?case
  proof (cases "k = j")
    case True
    with Suc.prems show ?thesis by simp
  next
    case False
    with Suc.prems have lt: "k < j" by simp
    then have "pow2 (k + 1) \<le> pow2 j" by (intro pow2_mono) simp
    with Suc.prems lt have "\<not> x < pow2 (k + 1)" by simp
    moreover have "find_exp n (k + 1) x = j"
      using Suc.prems lt by (intro Suc.IH) auto
    ultimately show ?thesis by simp
  qed
qed

lemma expo_range: "- 1022 \<le> expo x \<and> expo x \<le> 1023"
  using find_exp_range [of "- 1022" 2045 "\<bar>x\<bar>"] by (simp add: expo_def)

lemma expo_upper: "\<bar>x\<bar> < pow2 1024 \<Longrightarrow> \<bar>x\<bar> < pow2 (expo x + 1)"
proof (cases "expo x < 1023")
  case True
  then show ?thesis
    using find_exp_upper [of 2045 "- 1022" "\<bar>x\<bar>"] by (simp add: expo_def)
next
  case False
  with expo_range [of x] have "expo x = 1023" by simp
  moreover assume "\<bar>x\<bar> < pow2 1024"
  ultimately show ?thesis by simp
qed

lemma expo_lower: "- 1022 < expo x \<Longrightarrow> pow2 (expo x) \<le> \<bar>x\<bar>"
  using find_exp_lower [of "- 1022" 2045 "\<bar>x\<bar>"] by (simp add: expo_def)

lemma expo_at:
  assumes "- 1022 \<le> k" and "k \<le> 1023" and "- 1022 < k \<longrightarrow> pow2 k \<le> \<bar>x\<bar>"
    and "\<bar>x\<bar> < pow2 (k + 1)"
  shows "expo x = k"
  unfolding expo_def using assms by (intro find_exp_unique) auto

lemma round_half_even_error: "\<bar>of_int (round_half_even q) - q\<bar> \<le> 1 / 2"
proof -
  have "of_int \<lfloor>q\<rfloor> \<le> q" and "q < of_int \<lfloor>q\<rfloor> + 1" by linarith+
  then show ?thesis
    by (auto simp: round_half_even_def Let_def)
qed

lemma round_half_even_of_int: "round_half_even (of_int i) = i"
  by (simp add: round_half_even_def)

text \<open>The rounding at a number whose binade is known.\<close>

lemma to_double_at:
  assumes "- 1022 \<le> k" and "k \<le> 1023" and "- 1022 < k \<longrightarrow> pow2 k \<le> \<bar>x\<bar>"
    and "\<bar>x\<bar> < pow2 (k + 1)"
  shows "to_double x =
     (let u = pow2 (k - 52);
          y = of_int (round_half_even (x / u)) * u
      in if \<bar>y\<bar> < pow2 1024 then Some y else None)"
  by (simp only: to_double_def expo_at [OF assms])

text \<open>Up to \<open>2 ^ 1023\<close> the rounding is finite, with a relative error of at most
  \<open>2 ^ (- 53)\<close> and, among the subnormal values, an absolute error of at most
  \<open>2 ^ (- 1075)\<close>.\<close>

lemma to_double_error:
  assumes "\<bar>x\<bar> \<le> M" and "M \<le> pow2 1023"
  shows "\<exists>y. to_double x = Some y \<and> \<bar>y - x\<bar> \<le> M / 2 ^ 53 + 1 / 2 ^ 1075"
proof -
  define e where "e = expo x"
  define u where "u = pow2 (e - 52)"
  define y where "y = of_int (round_half_even (x / u)) * u"
  have upos: "0 < u" by (simp add: u_def pow2_pos)
  have "\<bar>y - x\<bar> = \<bar>of_int (round_half_even (x / u)) - x / u\<bar> * u"
    using upos by (simp add: y_def abs_mult [symmetric] field_simps)
  also have "\<dots> \<le> 1 / 2 * u"
    using upos round_half_even_error [of "x / u"] by (intro mult_right_mono) simp_all
  finally have err: "\<bar>y - x\<bar> \<le> u / 2" by simp
  have ubound: "u / 2 \<le> M / 2 ^ 53 + 1 / 2 ^ 1075"
  proof (cases "- 1022 < e")
    case True
    then have "pow2 e \<le> \<bar>x\<bar>" unfolding e_def by (rule expo_lower)
    moreover have "pow2 e = u * 2 ^ 52"
      using pow2_add [of "e - 52" 52] by (simp add: u_def pow2_def)
    ultimately have "u * 2 ^ 52 \<le> M" using assms(1) by simp
    then have "u / 2 \<le> M / 2 ^ 53" by (simp add: field_simps)
    then show ?thesis by (simp add: add_increasing2)
  next
    case False
    with expo_range [of x] have "e = - 1022" by (simp add: e_def)
    then have "u = 1 / 2 ^ 1074" by (simp add: u_def pow2_def)
    then have "u / 2 = 1 / 2 ^ 1075" by simp
    moreover have "0 \<le> M" using assms(1) by linarith
    ultimately show ?thesis by simp
  qed
  have "u \<le> pow2 971"
    using expo_range [of x] unfolding u_def e_def by (intro pow2_mono) simp
  then have "u / 2 < pow2 1023"
    using pow2_strict_mono [of 971 1023] upos by linarith
  with err assms have "\<bar>y\<bar> < pow2 1023 + pow2 1023" by linarith
  also have "pow2 1023 + pow2 1023 = pow2 1024"
    using pow2_add [of 1023 1] by (simp add: pow2_def)
  finally have "\<bar>y\<bar> < pow2 1024" .
  then have "to_double x = Some y"
    by (simp add: to_double_def Let_def y_def u_def e_def)
  with err ubound show ?thesis by auto
qed

text \<open>The integers below \<open>2 ^ 53\<close> in magnitude are binary64 values.\<close>

lemma to_double_of_int:
  assumes "\<bar>i\<bar> < 2 ^ 53"
  shows "to_double (of_int i) = Some (of_int i)"
proof -
  define e where "e = expo (of_int i)"
  define u where "u = pow2 (e - 52)"
  have upos: "0 < u" by (simp add: u_def pow2_pos)
  have less: "\<bar>real_of_int i\<bar> < 2 ^ 53"
    using assms by (metis of_int_abs of_int_less_numeral_power_cancel_iff)
  have small: "\<bar>real_of_int i\<bar> < pow2 1024"
  proof -
    have "(2::real) ^ 53 = pow2 53" by (simp add: pow2_def)
    also have "pow2 53 < pow2 1024" by (rule pow2_strict_mono) simp
    finally show ?thesis using less by linarith
  qed
  have le52: "e \<le> 52"
  proof (rule ccontr)
    assume "\<not> e \<le> 52"
    then have e: "53 \<le> e" by simp
    then have "pow2 e \<le> \<bar>real_of_int i\<bar>" unfolding e_def by (intro expo_lower) simp
    moreover have "pow2 53 \<le> pow2 e" using e by (rule pow2_mono)
    ultimately show False using less by (simp add: pow2_def)
  qed
  obtain m where m: "real_of_int i / u = of_int m"
  proof
    have "pow2 (e - 52) * pow2 (52 - e) = 1"
      using pow2_add [of "e - 52" "52 - e"] by (simp add: pow2_def)
    then have "1 / u = pow2 (52 - e)" using upos by (simp add: u_def field_simps)
    also have "pow2 (52 - e) = 2 ^ nat (52 - e)" using le52 by (simp add: pow2_def)
    finally have inv: "1 / u = 2 ^ nat (52 - e)" .
    have "real_of_int i / u = real_of_int i * (1 / u)" by simp
    also have "\<dots> = real_of_int i * 2 ^ nat (52 - e)" by (simp only: inv)
    finally show "real_of_int i / u = of_int (i * 2 ^ nat (52 - e))" by simp
  qed
  have "of_int (round_half_even (real_of_int i / u)) * u = real_of_int i"
    using upos by (simp only: m round_half_even_of_int) (simp add: m [symmetric])
  with small show ?thesis
    by (simp add: to_double_def Let_def u_def e_def)
qed

text \<open>So are the halves of such integers.\<close>

lemma to_double_half:
  assumes "\<bar>m\<bar> < 2 ^ 53"
  shows "to_double (of_int m / 2) = Some (of_int m / 2)"
proof -
  define x where "x = real_of_int m / 2"
  define e where "e = expo x"
  define u where "u = pow2 (e - 52)"
  have upos: "0 < u" by (simp add: u_def pow2_pos)
  have less: "\<bar>real_of_int m\<bar> < 2 ^ 53"
    using assms by (metis of_int_abs of_int_less_numeral_power_cancel_iff)
  then have xless: "\<bar>x\<bar> < 2 ^ 52" by (simp add: x_def)
  have small: "\<bar>x\<bar> < pow2 1024"
  proof -
    have "(2::real) ^ 52 = pow2 52" by (simp add: pow2_def)
    also have "pow2 52 < pow2 1024" by (rule pow2_strict_mono) simp
    finally show ?thesis using xless by linarith
  qed
  have le51: "e \<le> 51"
  proof (rule ccontr)
    assume "\<not> e \<le> 51"
    then have e: "52 \<le> e" by simp
    then have "pow2 e \<le> \<bar>x\<bar>" unfolding e_def by (intro expo_lower) simp
    moreover have "pow2 52 \<le> pow2 e" using e by (rule pow2_mono)
    ultimately show False using xless by (simp add: pow2_def)
  qed
  obtain j where j: "x / u = of_int j"
  proof
    have "pow2 (e - 52) * pow2 (52 - e) = 1"
      using pow2_add [of "e - 52" "52 - e"] by (simp add: pow2_def)
    then have "1 / u = pow2 (52 - e)" using upos by (simp add: u_def field_simps)
    also have "pow2 (52 - e) = pow2 (51 - e) * 2"
      using pow2_add [of "51 - e" 1] by (simp add: pow2_def)
    also have "pow2 (51 - e) = 2 ^ nat (51 - e)" using le51 by (simp add: pow2_def)
    finally have inv: "1 / u = 2 ^ nat (51 - e) * 2" .
    have "x / u = x * (1 / u)" by simp
    also have "\<dots> = real_of_int m * 2 ^ nat (51 - e)" by (simp only: inv) (simp add: x_def)
    finally show "x / u = of_int (m * 2 ^ nat (51 - e))" by simp
  qed
  have "of_int (round_half_even (x / u)) * u = x"
    using upos by (simp only: j round_half_even_of_int) (simp add: j [symmetric])
  with small have "to_double x = Some x"
    by (simp add: to_double_def Let_def u_def e_def)
  then show ?thesis by (simp add: x_def)
qed

lemma to_double_numeral:
  "numeral n < (2::int) ^ 53 \<Longrightarrow> to_double (numeral n) = Some (numeral n)"
  using to_double_of_int [of "numeral n"] by simp

lemma to_double_0: "to_double 0 = Some 0"
  using to_double_of_int [of 0] by simp

lemma to_double_1: "to_double 1 = Some 1"
  using to_double_of_int [of 1] by simp

lemma to_double_near:
  assumes "\<bar>x\<bar> \<le> M" and "M \<le> 10 ^ 8" and "M * 112 / 10 ^ 18 + 1 / 10 ^ 20 \<le> B"
  shows "\<exists>y. to_double x = Some y \<and> \<bar>y - x\<bar> \<le> B"
proof -
  have "(10::real) ^ 8 \<le> pow2 1023" by (simp add: pow2_def)
  with assms(2) have "M \<le> pow2 1023" by linarith
  from to_double_error [OF assms(1) this]
  obtain y where y: "to_double x = Some y" "\<bar>y - x\<bar> \<le> M / 2 ^ 53 + 1 / 2 ^ 1075" by blast
  have "(1::real) / 2 ^ 1075 \<le> 1 / 10 ^ 20" by simp
  moreover have "0 \<le> M" using assms(1) by linarith
  then have "M / 2 ^ 53 \<le> M * 112 / 10 ^ 18" by (simp add: field_simps)
  ultimately have "\<bar>y - x\<bar> \<le> B" using y(2) assms(3) by linarith
  with y(1) show ?thesis by blast
qed

text \<open>Evaluation of \<open>to_double\<close> at a given number: the exponents that occur in the
  examples.\<close>

lemmas to_double_examples =
  to_double_0 to_double_1 to_double_numeral
  to_double_at [where k = "- 6"] to_double_at [where k = 0] to_double_at [where k = 1]
  to_double_at [where k = 2] to_double_at [where k = 3] to_double_at [where k = 4]
  to_double_at [where k = 5] to_double_at [where k = 6] to_double_at [where k = 7]
  to_double_at [where k = 23] to_double_at [where k = 24] to_double_at [where k = 26]

lemmas fl_defs = fl_add_def fl_sub_def fl_mul_def fl_div_def pow2_def round_half_even_def

lemma literal_3_6: "to_double 3.6 = Some (8106479329266893 / 2 ^ 51)"
  by (simp add: to_double_examples fl_defs)

section \<open>Properties of the aggregation\<close>

subsection \<open>The grouping in closed form\<close>

lemma first_keys_snoc:
  "first_keys (ks @ [k]) = (if k \<in> set ks then first_keys ks else first_keys ks @ [k])"
  by (simp add: first_keys_def)

lemma set_first_keys: "set (first_keys ks) = set ks"
  by (simp add: first_keys_def)

lemma distinct_first_keys: "distinct (first_keys ks)"
  by (simp add: first_keys_def)

lemma obj_modify_absent:
  "k \<notin> fst ` set kvs \<Longrightarrow> obj_modify k f (kvs @ [(k, v)]) = kvs @ [(k, f v)]"
  by (induction kvs) auto

lemma obj_modify_map:
  "distinct ks \<Longrightarrow>
   obj_modify k f (map (\<lambda>k'. (k', g k')) ks) =
   map (\<lambda>k'. (k', if k' = k then f (g k') else g k')) ks"
  by (induction ks) auto

lemma acc_of_single:
  "push_item item \<lparr>d_date = dt item * 1000, d_temps = [],
      d_weather = first_elem (weather item), d_humidity = [], d_windSpeed = []\<rparr> = acc_of [item]"
  by (simp add: push_item_def acc_of_def)

lemma acc_of_snoc: "g \<noteq> [] \<Longrightarrow> push_item item (acc_of g) = acc_of (g @ [item])"
  by (cases g) (simp_all add: push_item_def acc_of_def)

lemma group_step_eq:
  "group_step key item dailyData =
     obj_modify (dayKey key item) (push_item item)
       (if map_of dailyData (dayKey key item) = None
        then dailyData @ [(dayKey key item,
               \<lparr>d_date = dt item * 1000, d_temps = [],
                 d_weather = first_elem (weather item), d_humidity = [], d_windSpeed = []\<rparr>)]
        else dailyData)"
  unfolding group_step_def dayKey_def Let_def push_item_def by (rule refl)

lemma group_days_snoc:
  "group_days key (xs @ [x]) = group_step key x (group_days key xs)"
  by (simp add: group_days_def)


lemma samples_of_day_fresh:
  "k \<notin> dayKey key ` set xs \<Longrightarrow> samples_of_day key k xs = []"
  by (auto simp: samples_of_day_def filter_empty_conv image_iff)

lemma samples_of_day_nonempty:
  "k \<in> dayKey key ` set xs \<Longrightarrow> samples_of_day key k xs \<noteq> []"
  by (auto simp: samples_of_day_def filter_empty_conv image_iff)

lemma samples_of_day_snoc:
  "samples_of_day key k (xs @ [x]) =
     (if dayKey key x = k then samples_of_day key k xs @ [x] else samples_of_day key k xs)"
  by (simp add: samples_of_day_def)

lemma group_days_closed:
  "group_days key xs =
     map (\<lambda>k. (k, acc_of (samples_of_day key k xs))) (first_keys (map (dayKey key) xs))"
proof (induction xs rule: rev_induct)
  case Nil
  show ?case by (simp add: group_days_def first_keys_def)
next
  case (snoc x xs)
  let ?k = "dayKey key x"
  let ?ks = "first_keys (map (dayKey key) xs)"
  let ?G = "\<lambda>k. acc_of (samples_of_day key k xs)"
  let ?G' = "\<lambda>k. acc_of (samples_of_day key k (xs @ [x]))"
  have none_iff: "map_of (map (\<lambda>k. (k, ?G k)) ?ks) ?k = None \<longleftrightarrow> ?k \<notin> set ?ks"
    by (simp add: map_of_eq_None_iff image_image)
  show ?case
  proof (cases "?k \<in> set ?ks")
    case False
    then have nokey: "?k \<notin> dayKey key ` set xs"
      by (simp add: set_first_keys)
    have fresh: "samples_of_day key ?k (xs @ [x]) = [x]"
      by (simp add: samples_of_day_snoc samples_of_day_fresh [OF nokey])
    have others: "\<And>k. k \<in> set ?ks \<Longrightarrow> ?G' k = ?G k"
      using False by (auto simp: samples_of_day_snoc)
    have absent: "map_of (map (\<lambda>k. (k, ?G k)) ?ks) ?k = None"
      using False none_iff by blast
    have "group_days key (xs @ [x]) =
            obj_modify ?k (push_item x)
              (map (\<lambda>k. (k, ?G k)) ?ks @
                [(?k, \<lparr>d_date = dt x * 1000, d_temps = [],
                        d_weather = first_elem (weather x), d_humidity = [],
                        d_windSpeed = []\<rparr>)])"
      by (simp only: group_days_snoc snoc.IH group_step_eq if_P [OF absent])
    also have "\<dots> = map (\<lambda>k. (k, ?G k)) ?ks @ [(?k, acc_of [x])]"
      using False by (simp add: obj_modify_absent image_image acc_of_single)
    also have "\<dots> = map (\<lambda>k. (k, ?G' k)) (?ks @ [?k])"
      using others fresh by simp
    also have "?ks @ [?k] = first_keys (map (dayKey key) (xs @ [x]))"
      using False by (simp add: first_keys_snoc set_first_keys)
    finally show ?thesis .
  next
    case True
    then have haskey: "?k \<in> dayKey key ` set xs"
      by (simp add: set_first_keys)
    have upd: "\<And>k. (if k = ?k then push_item x (?G k) else ?G k) = ?G' k"
      using samples_of_day_nonempty [OF haskey]
      by (auto simp: acc_of_snoc samples_of_day_snoc)
    have present: "map_of (map (\<lambda>k. (k, ?G k)) ?ks) ?k \<noteq> None"
      using True none_iff by blast
    have "group_days key (xs @ [x]) =
            obj_modify ?k (push_item x) (map (\<lambda>k. (k, ?G k)) ?ks)"
      by (simp only: group_days_snoc snoc.IH group_step_eq if_not_P [OF present])
    also have "\<dots> = map (\<lambda>k. (k, if k = ?k then push_item x (?G k) else ?G k)) ?ks"
      by (rule obj_modify_map [OF distinct_first_keys])
    also have "\<dots> = map (\<lambda>k. (k, ?G' k)) ?ks"
      by (simp only: upd)
    also have "?ks = first_keys (map (dayKey key) (xs @ [x]))"
      using True by (simp add: first_keys_snoc set_first_keys)
    finally show ?thesis .
  qed
qed


lemma groupForecastByDay_closed:
  "groupForecastByDay key xs =
     map (\<lambda>k. summarise (acc_of (samples_of_day key k xs)))
       (first_keys (map (dayKey key) xs))"
  by (simp add: groupForecastByDay_def group_days_closed comp_def)

lemma samples_of_day_head:
  assumes "k \<in> dayKey key ` set xs"
  obtains item rest where "samples_of_day key k xs = item # rest" and "dayKey key item = k"
proof -
  from samples_of_day_nonempty [OF assms]
  obtain item rest where eq: "samples_of_day key k xs = item # rest"
    by (cases "samples_of_day key k xs") auto
  then have "item \<in> set (samples_of_day key k xs)" by simp
  then have "dayKey key item = k" by (simp add: samples_of_day_def)
  with eq show thesis by (rule that)
qed

lemma key_of_acc_date:
  assumes "k \<in> dayKey key ` set xs"
  shows "key (d_date (acc_of (samples_of_day key k xs))) = k"
proof -
  from assms obtain item rest
    where "samples_of_day key k xs = item # rest" and "dayKey key item = k"
    by (rule samples_of_day_head)
  then show ?thesis by (simp add: acc_of_def dayKey_def)
qed

lemma summary_keys:
  "map (\<lambda>d. key (date d)) (groupForecastByDay key xs) = first_keys (map (dayKey key) xs)"
proof -
  have "map (\<lambda>d. key (date d)) (groupForecastByDay key xs) =
        map (\<lambda>k. key (d_date (acc_of (samples_of_day key k xs))))
          (first_keys (map (dayKey key) xs))"
    by (simp add: groupForecastByDay_closed comp_def summarise_def)
  also have "\<dots> = map (\<lambda>k. k) (first_keys (map (dayKey key) xs))"
    by (rule map_cong [OF refl]) (simp add: set_first_keys key_of_acc_date)
  finally show ?thesis by simp
qed

lemma group_days_keys:
  "map fst (group_days key xs) = first_keys (map (dayKey key) xs)"
  by (simp add: group_days_closed comp_def)

lemma group_days_entry:
  "(k, d) \<in> set (group_days key xs) \<Longrightarrow> d = acc_of (samples_of_day key k xs)"
  by (auto simp: group_days_closed)

lemma sum_list_bump:
  "distinct ks \<Longrightarrow> k \<in> set ks \<Longrightarrow>
   sum_list (map (\<lambda>k'. if k' = k then Suc (f k') else f k') ks) = Suc (sum_list (map f ks))"
  by (induction ks) (auto intro!: arg_cong [where f = sum_list] map_cong)

lemma group_sizes:
  "sum_list (map (\<lambda>k. length (samples_of_day key k xs)) (first_keys (map (dayKey key) xs)))
     = length xs"
proof (induction xs rule: rev_induct)
  case Nil
  show ?case by (simp add: first_keys_def)
next
  case (snoc x xs)
  let ?k = "dayKey key x"
  let ?ks = "first_keys (map (dayKey key) xs)"
  have len: "\<And>k. length (samples_of_day key k (xs @ [x])) =
                (if k = ?k then Suc (length (samples_of_day key k xs))
                 else length (samples_of_day key k xs))"
    by (auto simp: samples_of_day_snoc)
  show ?case
  proof (cases "?k \<in> set ?ks")
    case True
    then have keys: "first_keys (map (dayKey key) (xs @ [x])) = ?ks"
      by (simp add: first_keys_snoc set_first_keys)
    have "sum_list (map (\<lambda>k. length (samples_of_day key k (xs @ [x]))) ?ks) =
          Suc (sum_list (map (\<lambda>k. length (samples_of_day key k xs)) ?ks))"
      unfolding len by (rule sum_list_bump [OF distinct_first_keys True])
    then show ?thesis
      by (simp only: keys snoc.IH length_append_singleton)
  next
    case False
    then have keys: "first_keys (map (dayKey key) (xs @ [x])) = ?ks @ [?k]"
      by (simp add: first_keys_snoc set_first_keys)
    from False have "\<forall>k\<in>set ?ks. k \<noteq> ?k" by auto
    then have same: "map (\<lambda>k. length (samples_of_day key k (xs @ [x]))) ?ks =
               map (\<lambda>k. length (samples_of_day key k xs)) ?ks"
      unfolding len by (intro map_cong) auto
    have fresh: "samples_of_day key ?k xs = []"
      using False by (simp add: samples_of_day_fresh set_first_keys)
    have "sum_list (map (\<lambda>k. length (samples_of_day key k (xs @ [x]))) (?ks @ [?k])) =
          Suc (sum_list (map (\<lambda>k. length (samples_of_day key k xs)) ?ks))"
      by (simp add: same) (simp add: samples_of_day_snoc fresh)
    then show ?thesis
      by (simp only: keys snoc.IH length_append_singleton)
  qed
qed

subsection \<open>Built-ins, groups and order\<close>

lemma fold_add_from_left:
  "fold (\<lambda>b a. do { a' \<leftarrow> a; fl_add a' b }) xs acc = sum_from_left acc xs"
  by (induction xs arbitrary: acc) simp_all

lemma mean_binary64: "mean xs = binary64_mean xs"
  by (simp add: mean_def binary64_mean_def reduce_add_def fold_add_from_left)

text \<open>The binary64 mean of at most a million integers of magnitude at most 100 rounds
  like their exact mean: the sum is exact, and the rounding of the quotient does not cross
  a half.\<close>

lemma sum_from_left_ints:
  assumes "\<forall>i\<in>set is. \<bar>i\<bar> \<le> 100" and "\<bar>a\<bar> + 100 * int (length is) < 2 ^ 53"
  shows "sum_from_left (Some (of_int a)) (map of_int is) = Some (of_int (a + sum_list is))"
  using assms
proof (induction "is" arbitrary: a)
  case Nil
  then show ?case by simp
next
  case (Cons i "is")
  from Cons.prems have i: "\<bar>i\<bar> \<le> 100" by simp
  with Cons.prems(2) have "\<bar>a + i\<bar> < 2 ^ 53" by simp
  then have step: "fl_add (of_int a) (of_int i) = Some (of_int (a + i))"
    using to_double_of_int [of "a + i"] by (simp add: fl_add_def)
  have "\<bar>a + i\<bar> + 100 * int (length is) < 2 ^ 53"
    using Cons.prems(2) i by simp
  with Cons.prems(1) have "sum_from_left (Some (of_int (a + i))) (map of_int is) =
      Some (of_int ((a + i) + sum_list is))"
    by (intro Cons.IH) simp_all
  then show ?case by (simp add: step add.assoc)
qed

lemma Math_round_of_rounded_quotient:
  assumes n: "0 < n" "n \<le> 1000000" and s: "\<bar>s\<bar> \<le> 100 * n"
    and y: "to_double (of_int s / of_int n) = Some y"
  shows "Math_round y = Math_round (of_int s / of_int n)"
proof -
  define q where "q = real_of_int s / real_of_int n"
  define k where "k = Math_round q"
  have npos: "0 < real_of_int n" using n by simp
  have qabs: "\<bar>q\<bar> \<le> 100"
  proof -
    have "\<bar>real_of_int s\<bar> \<le> 100 * real_of_int n"
      using s by (metis of_int_abs of_int_le_iff of_int_mult of_int_numeral)
    then show ?thesis using npos by (simp add: q_def field_simps)
  qed
  have "\<exists>z. to_double q = Some z \<and> \<bar>z - q\<bar> \<le> 2 / 100000000000000"
    using qabs by (rule to_double_near) simp_all
  with y have near: "\<bar>y - q\<bar> \<le> 2 / 100000000000000" by (simp add: q_def)
  have lo: "of_int k \<le> q + 1 / 2" and hi: "q + 1 / 2 < of_int k + 1"
    unfolding k_def Math_round_def by linarith+
  have lo_int: "(2 * k - 1) * n \<le> 2 * s"
  proof -
    have "(2 * of_int k - 1) * real_of_int n \<le> 2 * real_of_int s"
      using lo npos by (simp add: q_def field_simps)
    then have "real_of_int ((2 * k - 1) * n) \<le> real_of_int (2 * s)" by simp
    then show ?thesis by (simp only: of_int_le_iff)
  qed
  have hi_int: "2 * s < (2 * k + 1) * n"
  proof -
    have "2 * real_of_int s < (2 * of_int k + 1) * real_of_int n"
      using hi npos by (simp add: q_def field_simps)
    then have "real_of_int (2 * s) < real_of_int ((2 * k + 1) * n)" by simp
    then show ?thesis by (simp only: of_int_less_iff)
  qed
  have gap: "1 / (2 * real_of_int n) \<ge> 5 / 10000000"
  proof -
    have "real_of_int n \<le> 1000000" using n by simp
    then show ?thesis using npos by (simp add: field_simps)
  qed
  have upper: "y + 1 / 2 < of_int k + 1"
  proof -
    from hi_int have "2 * s + 1 \<le> (2 * k + 1) * n" by simp
    then have "real_of_int (2 * s + 1) \<le> real_of_int ((2 * k + 1) * n)"
      by (simp only: of_int_le_iff)
    then have "2 * real_of_int s + 1 \<le> (2 * of_int k + 1) * real_of_int n" by simp
    then have "q + 1 / (2 * real_of_int n) \<le> of_int k + 1 / 2"
      using npos by (simp add: q_def field_simps)
    with gap near show ?thesis by argo
  qed
  have lower: "of_int k \<le> y + 1 / 2"
  proof (cases "(2 * k - 1) * n = 2 * s")
    case True
    then have "real_of_int ((2 * k - 1) * n) = real_of_int (2 * s)" by simp
    then have "(2 * of_int k - 1) * real_of_int n = 2 * real_of_int s" by simp
    then have qk: "q = of_int (2 * k - 1) / 2"
      using npos by (simp add: q_def field_simps)
    have "\<bar>q\<bar> \<le> 100" by (rule qabs)
    then have "\<bar>real_of_int (2 * k - 1)\<bar> \<le> 200" by (simp add: qk)
    then have "\<bar>2 * k - 1\<bar> \<le> 200" by linarith
    then have "\<bar>2 * k - 1\<bar> < 2 ^ 53" by simp
    from to_double_half [OF this] y have "y = q" by (simp add: qk q_def [symmetric])
    with lo show ?thesis by simp
  next
    case False
    with lo_int have "(2 * k - 1) * n + 1 \<le> 2 * s" by simp
    then have "real_of_int ((2 * k - 1) * n + 1) \<le> real_of_int (2 * s)"
      by (simp only: of_int_le_iff)
    then have "(2 * of_int k - 1) * real_of_int n + 1 \<le> 2 * real_of_int s" by simp
    then have "((2 * of_int k - 1) * real_of_int n + 1) / (2 * real_of_int n)
                 \<le> (2 * real_of_int s) / (2 * real_of_int n)"
      using npos by (intro divide_right_mono) simp_all
    moreover have "((2 * of_int k - 1) * real_of_int n + 1) / (2 * real_of_int n) =
                     of_int k - 1 / 2 + 1 / (2 * real_of_int n)"
      using npos by (simp add: field_simps)
    moreover have "(2 * real_of_int s) / (2 * real_of_int n) = q"
      by (simp add: q_def)
    ultimately have "of_int k - 1 / 2 + 1 / (2 * real_of_int n) \<le> q" by simp
    with gap near show ?thesis by argo
  qed
  from lower upper have "\<lfloor>y + 1 / 2\<rfloor> = k" by linarith
  then show ?thesis by (simp add: Math_round_def k_def q_def)
qed

lemma mean_of_integers:
  assumes "\<forall>i\<in>set is. \<bar>i\<bar> \<le> 100" and "is \<noteq> []" and "length is \<le> 1000000"
  shows "map_option Math_round (binary64_mean (map of_int is)) =
           Some (Math_round (sum_list (map of_int is) / real (length is)))"
proof -
  define n where "n = int (length is)"
  have n: "0 < n" "n \<le> 1000000" using assms(2,3) by (simp_all add: n_def)
  have "\<bar>0::int\<bar> + 100 * int (length is) < 2 ^ 53" using assms(3) by simp
  from sum_from_left_ints [OF assms(1) this]
  have sum: "sum_from_left (Some 0) (map of_int is) = Some (of_int (sum_list is))" by simp
  have sabs: "\<bar>sum_list is\<bar> \<le> 100 * n"
    using assms(1) unfolding n_def
  proof (induction "is")
    case Nil
    then show ?case by simp
  next
    case (Cons i "is")
    then have "\<bar>i\<bar> \<le> 100" and "\<bar>sum_list is\<bar> \<le> 100 * int (length is)" by simp_all
    then show ?case by simp
  qed
  have len: "real (length is) = real_of_int n" by (simp add: n_def)
  have "\<bar>real_of_int (sum_list is) / real_of_int n\<bar> \<le> 100"
  proof -
    have "\<bar>real_of_int (sum_list is)\<bar> \<le> 100 * real_of_int n"
      using sabs by (metis of_int_abs of_int_le_iff of_int_mult of_int_numeral)
    then show ?thesis using n by (simp add: field_simps)
  qed
  then have "\<exists>y. to_double (real_of_int (sum_list is) / real_of_int n) = Some y \<and>
      \<bar>y - real_of_int (sum_list is) / real_of_int n\<bar> \<le> 1"
    by (rule to_double_near) simp_all
  then obtain y where y: "to_double (real_of_int (sum_list is) / real_of_int n) = Some y"
    by blast
  from Math_round_of_rounded_quotient [OF n sabs y]
  have "Math_round y = Math_round (real_of_int (sum_list is) / real_of_int n)" .
  moreover have "binary64_mean (map of_int is) = Some y"
    using n y by (simp add: binary64_mean_def sum fl_div_def len)
  moreover have "sum_list (map real_of_int is) = real_of_int (sum_list is)"
    by (induction "is") simp_all
  ultimately show ?thesis by (simp add: len)
qed

lemma Math_max_Max: "xs \<noteq> [] \<Longrightarrow> Math_max xs = Some (Max (set xs))"
  by (cases xs) (simp_all add: Max.set_eq_fold del: set_simps)

lemma Math_min_Min: "xs \<noteq> [] \<Longrightarrow> Math_min xs = Some (Min (set xs))"
  by (cases xs) (simp_all add: Min.set_eq_fold del: set_simps)

lemma Math_round_mono: "x \<le> y \<Longrightarrow> Math_round x \<le> Math_round y"
  by (simp add: Math_round_def floor_mono)

lemma summary_in_output:
  assumes "d \<in> set (groupForecastByDay key xs)"
  obtains k where "k \<in> dayKey key ` set xs" and "d = summarise (acc_of (samples_of_day key k xs))"
    and "key (date d) = k"
proof -
  from assms obtain k where k: "k \<in> set (first_keys (map (dayKey key) xs))"
    and d: "d = summarise (acc_of (samples_of_day key k xs))"
    by (auto simp: groupForecastByDay_closed)
  from k have mem: "k \<in> dayKey key ` set xs" by (simp add: set_first_keys)
  have "key (date d) = k"
    using key_of_acc_date [OF mem] by (simp add: d summarise_def)
  with mem d show thesis by (rule that)
qed

lemma summary_of_group:
  assumes "d \<in> set (groupForecastByDay key xs)"
  shows "samples_of_day key (key (date d)) xs \<noteq> [] \<and>
         d = summarise (acc_of (samples_of_day key (key (date d)) xs))"
proof -
  from assms obtain k where "k \<in> dayKey key ` set xs"
    and "d = summarise (acc_of (samples_of_day key k xs))" and "key (date d) = k"
    by (rule summary_in_output)
  then show ?thesis using samples_of_day_nonempty by metis
qed

lemma takeWhile_stops: "x \<in> set xs \<Longrightarrow> \<not> P x \<Longrightarrow> length (takeWhile P xs) < length xs"
  by (induction xs) auto

lemma first_index_old:
  assumes "k \<in> dayKey key ` set xs"
  shows "first_index key (xs @ ys) k = first_index key xs k" and "first_index key xs k < length xs"
proof -
  from assms obtain item where item: "item \<in> set xs" "\<not> dayKey key item \<noteq> k" by auto
  then show "first_index key (xs @ ys) k = first_index key xs k"
    by (simp only: first_index_def
          takeWhile_append1 [where P = "\<lambda>item. dayKey key item \<noteq> k", OF item])
  from item show "first_index key xs k < length xs"
    unfolding first_index_def by (rule takeWhile_stops)
qed

lemma first_index_new:
  assumes "dayKey key x \<notin> dayKey key ` set xs"
  shows "first_index key (xs @ [x]) (dayKey key x) = length xs"
proof -
  from assms have "\<forall>item\<in>set xs. dayKey key item \<noteq> dayKey key x"
    by (auto simp: image_iff)
  then show ?thesis by (simp add: first_index_def)
qed

lemma first_keys_by_first_index:
  "sorted_wrt (\<lambda>a b. first_index key xs a < first_index key xs b)
     (first_keys (map (dayKey key) xs))"
proof (induction xs rule: rev_induct)
  case Nil
  show ?case by (simp add: first_keys_def)
next
  case (snoc x xs)
  let ?k = "dayKey key x"
  let ?ks = "first_keys (map (dayKey key) xs)"
  have old: "sorted_wrt (\<lambda>a b. first_index key (xs @ [x]) a < first_index key (xs @ [x]) b) ?ks"
    using snoc.IH
    by (rule sorted_wrt_mono_rel [rotated]) (simp add: set_first_keys first_index_old(1))
  show ?case
  proof (cases "?k \<in> set ?ks")
    case True
    then show ?thesis using old by (simp add: first_keys_snoc set_first_keys)
  next
    case False
    then have new: "?k \<notin> dayKey key ` set xs" by (simp add: set_first_keys)
    have keys: "first_keys (map (dayKey key) (xs @ [x])) = ?ks @ [?k]"
      using False by (simp add: first_keys_snoc set_first_keys)
    have "\<forall>a\<in>set ?ks. first_index key (xs @ [x]) a < first_index key (xs @ [x]) ?k"
      by (simp add: set_first_keys first_index_new [OF new] first_index_old)
    with old show ?thesis
      unfolding keys by (simp add: sorted_wrt_append)
  qed
qed

subsection \<open>The claims about the aggregation\<close>

lemma example_days:
  "group_days utcDay example_forecast = [(0, example_acc_day0), (1, example_acc_day1)]"
  by (simp add: group_days_def group_step_def example_forecast_def sample_def utcDay_def
        first_elem_def example_acc_day0_def example_acc_day1_def)

lemma example_summaries:
  "groupForecastByDay utcDay example_forecast = [example_summary_day0, example_summary_day1]"
  by (simp add: groupForecastByDay_def example_days summarise_def Math_round_def mean_def
        reduce_add_def example_acc_day0_def example_acc_day1_def
        example_summary_day0_def example_summary_day1_def
        literal_3_6 to_double_examples fl_defs)

lemma example_samples_day0:
  "samples_of_day utcDay 0 example_forecast = [sample 0 10 50 5 ''rain'', sample 10800 14 70 7 ''clear'']"
  by (simp add: samples_of_day_def example_forecast_def dayKey_def utcDay_def sample_def)

lemma example_samples_day1:
  "samples_of_day utcDay 1 example_forecast = [sample 86400 12 60 3 ''clouds'']"
  by (simp add: samples_of_day_def example_forecast_def dayKey_def utcDay_def sample_def)

lemma example_later_day_first_dates:
  "map date (groupForecastByDay utcDay example_later_day_first) = [86400000, 0]"
  by (simp add: groupForecastByDay_def group_days_def group_step_def
        example_later_day_first_def sample_def utcDay_def first_elem_def summarise_def)

lemma two_samples_same_time:
  "groupForecastByDay key [sample t tp h ws c, sample t tp' h' ws' c'] =
     [\<lparr>date = t * 1000,
       maxTemp = Some (Math_round (max tp' tp)), minTemp = Some (Math_round (min tp' tp)),
       f_weather = Some (condition c),
       avgHumidity = map_option Math_round (mean [h, h']),
       avgWindSpeed =
         map_option Math_round (do { m \<leftarrow> mean [ws, ws']; k \<leftarrow> to_double 3.6; fl_mul m k })\<rparr>]"
  by (simp add: groupForecastByDay_def group_days_def group_step_def sample_def first_elem_def
        summarise_def Let_def)

lemma wind_5_and_7:
  "map_option Math_round (do { m \<leftarrow> mean [5, 7]; k \<leftarrow> to_double 3.6; fl_mul m k }) = Some 22"
  by (simp add: mean_def reduce_add_def literal_3_6 to_double_examples fl_defs Math_round_def)

lemma example_two_decimals_day:
  "samples_of_day utcDay 0 example_two_decimals = example_two_decimals"
  by (simp add: samples_of_day_def example_two_decimals_def dayKey_def utcDay_def sample_def)

lemma example_two_decimals_wind:
  "map (\<lambda>item. speed (wind item)) example_two_decimals = [wind_0_02, wind_2_48]"
  by (simp add: example_two_decimals_def sample_def)

lemma example_two_decimals_summary:
  "map avgWindSpeed (groupForecastByDay utcDay example_two_decimals) = [Some 5]"
  by (simp add: groupForecastByDay_def group_days_def group_step_def example_two_decimals_def
        sample_def utcDay_def first_elem_def summarise_def mean_def reduce_add_def
        wind_0_02_def wind_2_48_def literal_3_6 to_double_examples fl_defs Math_round_def)

lemma first_of_filter:
  "filter P xs = item # rest \<Longrightarrow> xs ! length (takeWhile (\<lambda>x. \<not> P x) xs) = item"
  by (induction xs) (auto split: if_splits)

lemma group_first_sample:
  assumes "samples_of_day key k xs = item # rest"
  shows "xs ! first_index key xs k = item"
  using first_of_filter [of "\<lambda>item. dayKey key item = k" xs item rest] assms
  by (simp add: samples_of_day_def first_index_def)

text \<open>
  Claim C1. For every input list and every date formatting, \<open>groupForecastByDay\<close> returns
  one summary per distinct day of the input: as many summaries as there are distinct day
  keys, with pairwise different keys that are exactly the keys of the input. Every sample
  is filed in exactly one group: the grouping has one entry per key, the entry of a day
  holds the values of precisely the samples of that day, in input order, and the sizes
  of the groups add up to the length of the input. The empty input gives the empty list.
\<close>

theorem C1_one_summary_per_day:
  "length (groupForecastByDay key xs) = card (dayKey key ` set xs) \<and>
   distinct (map (\<lambda>d. key (date d)) (groupForecastByDay key xs)) \<and>
   set (map (\<lambda>d. key (date d)) (groupForecastByDay key xs)) = dayKey key ` set xs \<and>
   distinct (map fst (group_days key xs)) \<and>
   (\<forall>(k, d)\<in>set (group_days key xs).
      d_temps d = map (\<lambda>item. temp (main item)) (samples_of_day key k xs) \<and>
      d_humidity d = map (\<lambda>item. humidity (main item)) (samples_of_day key k xs) \<and>
      d_windSpeed d = map (\<lambda>item. speed (wind item)) (samples_of_day key k xs)) \<and>
   sum_list (map (\<lambda>(k, d). length (d_temps d)) (group_days key xs)) = length xs \<and>
   groupForecastByDay key [] = []"
proof -
  let ?ks = "first_keys (map (dayKey key) xs)"
  have keys: "map (\<lambda>d. key (date d)) (groupForecastByDay key xs) = ?ks"
    by (rule summary_keys)
  have "length (groupForecastByDay key xs) = length ?ks"
    by (simp add: groupForecastByDay_closed)
  also have "\<dots> = card (set ?ks)"
    by (simp add: distinct_card distinct_first_keys)
  finally have count: "length (groupForecastByDay key xs) = card (dayKey key ` set xs)"
    by (simp add: set_first_keys)
  have dist: "distinct (map (\<lambda>d. key (date d)) (groupForecastByDay key xs))"
    by (simp only: keys distinct_first_keys)
  have cover: "set (map (\<lambda>d. key (date d)) (groupForecastByDay key xs)) = dayKey key ` set xs"
    by (simp only: keys set_first_keys set_map)
  have dist': "distinct (map fst (group_days key xs))"
    by (simp only: group_days_keys distinct_first_keys)
  have content: "\<forall>(k, d)\<in>set (group_days key xs).
      d_temps d = map (\<lambda>item. temp (main item)) (samples_of_day key k xs) \<and>
      d_humidity d = map (\<lambda>item. humidity (main item)) (samples_of_day key k xs) \<and>
      d_windSpeed d = map (\<lambda>item. speed (wind item)) (samples_of_day key k xs)"
    by (auto dest!: group_days_entry simp: acc_of_def)
  have "sum_list (map (\<lambda>(k, d). length (d_temps d)) (group_days key xs)) =
        sum_list (map (\<lambda>k. length (samples_of_day key k xs)) ?ks)"
    by (simp add: group_days_closed comp_def acc_of_def)
  then have total: "sum_list (map (\<lambda>(k, d). length (d_temps d)) (group_days key xs)) = length xs"
    by (simp only: group_sizes)
  have empty: "groupForecastByDay key [] = []"
    by (simp add: groupForecastByDay_def group_days_def)
  from count dist cover dist' content total empty show ?thesis by blast
qed

theorem C1_one_summary_per_day_witness:
  "(0, example_acc_day0) \<in> set (group_days utcDay example_forecast) \<and>
   d_temps example_acc_day0 =
     map (\<lambda>item. temp (main item)) (samples_of_day utcDay 0 example_forecast) \<and>
   d_temps example_acc_day0 = [10, 14] \<and>
   length (groupForecastByDay utcDay example_forecast) = 2 \<and>
   card (dayKey utcDay ` set example_forecast) = 2"
proof -
  have mem: "(0, example_acc_day0) \<in> set (group_days utcDay example_forecast)"
    by (simp add: example_days)
  have "length (groupForecastByDay utcDay example_forecast) = 2"
    by (simp add: example_summaries)
  moreover have "d_temps example_acc_day0 = [10, 14]"
    by (simp add: example_acc_day0_def)
  ultimately show ?thesis
    using C1_one_summary_per_day [of utcDay example_forecast] mem by auto
qed

text \<open>
  Claim C2, with the two means as binary64 arithmetic computes them. Every summary comes
  from a non-empty group, the samples of its day, and has the rounded maximum and
  minimum of the group's temperatures; its average humidity is the rounding by
  \<open>Math.round\<close> of the binary64 mean of the group's humidities (the sum taken from the
  left, then divided by the count), and its average wind speed is the rounding of the
  binary64 product of the binary64 mean of the wind speeds with the binary64 value of
  3.6. When the humidities of the group are whole numbers of magnitude at most 100, as
  percentages are, and the group has at most a million samples, the average humidity is
  the rounded exact mean. Two samples of one day with wind speeds 5 and 7 give the
  average wind speed 22.
\<close>

theorem C2_aggregation_formulas:
  "(\<forall>d\<in>set (groupForecastByDay key xs).
      let g = samples_of_day key (key (date d)) xs in
        g \<noteq> [] \<and>
        maxTemp d = Some (Math_round (Max (set (map (\<lambda>item. temp (main item)) g)))) \<and>
        minTemp d = Some (Math_round (Min (set (map (\<lambda>item. temp (main item)) g)))) \<and>
        avgHumidity d =
          map_option Math_round (binary64_mean (map (\<lambda>item. humidity (main item)) g)) \<and>
        avgWindSpeed d =
          map_option Math_round
            (do { m \<leftarrow> binary64_mean (map (\<lambda>item. speed (wind item)) g);
                  k \<leftarrow> to_double 3.6;
                  fl_mul m k })) \<and>
   (\<forall>d\<in>set (groupForecastByDay key xs). \<forall>percentages.
      map (\<lambda>item. humidity (main item)) (samples_of_day key (key (date d)) xs) =
        map of_int percentages \<and>
      (\<forall>i\<in>set percentages. \<bar>i\<bar> \<le> 100) \<and> length percentages \<le> 1000000 \<longrightarrow>
        avgHumidity d =
          Some (Math_round
            (sum_list (map (\<lambda>item. humidity (main item))
               (samples_of_day key (key (date d)) xs)) /
             real (length (samples_of_day key (key (date d)) xs))))) \<and>
   map avgWindSpeed (groupForecastByDay key [sample t tp h 5 c, sample t tp' h' 7 c']) = [Some 22]"
proof -
  have wind: "map avgWindSpeed (groupForecastByDay key [sample t tp h 5 c, sample t tp' h' 7 c'])
          = [Some 22]"
    by (simp only: two_samples_same_time list.map daily_forecast.select_convs wind_5_and_7)
  have formulas: "\<forall>d\<in>set (groupForecastByDay key xs).
      let g = samples_of_day key (key (date d)) xs in
        g \<noteq> [] \<and>
        maxTemp d = Some (Math_round (Max (set (map (\<lambda>item. temp (main item)) g)))) \<and>
        minTemp d = Some (Math_round (Min (set (map (\<lambda>item. temp (main item)) g)))) \<and>
        avgHumidity d =
          map_option Math_round (binary64_mean (map (\<lambda>item. humidity (main item)) g)) \<and>
        avgWindSpeed d =
          map_option Math_round
            (do { m \<leftarrow> binary64_mean (map (\<lambda>item. speed (wind item)) g);
                  k \<leftarrow> to_double 3.6;
                  fl_mul m k })"
  proof
    fix d assume "d \<in> set (groupForecastByDay key xs)"
    from summary_of_group [OF this]
    have ne: "samples_of_day key (key (date d)) xs \<noteq> []"
      and d: "d = summarise (acc_of (samples_of_day key (key (date d)) xs))"
      by simp_all
    define g where "g = samples_of_day key (key (date d)) xs"
    from ne have g: "g \<noteq> []" by (simp add: g_def)
    from d have d': "d = summarise (acc_of g)" by (simp add: g_def)
    have "maxTemp d = Some (Math_round (Max (set (map (\<lambda>item. temp (main item)) g))))"
      using g by (subst d') (simp add: summarise_def acc_of_def Math_max_Max)
    moreover have "minTemp d = Some (Math_round (Min (set (map (\<lambda>item. temp (main item)) g))))"
      using g by (subst d') (simp add: summarise_def acc_of_def Math_min_Min)
    moreover have "avgHumidity d =
        map_option Math_round (binary64_mean (map (\<lambda>item. humidity (main item)) g))"
      by (subst d') (simp add: summarise_def acc_of_def mean_binary64)
    moreover have "avgWindSpeed d =
        map_option Math_round
          (do { m \<leftarrow> binary64_mean (map (\<lambda>item. speed (wind item)) g);
                k \<leftarrow> to_double 3.6;
                fl_mul m k })"
      by (subst d') (simp add: summarise_def acc_of_def mean_binary64)
    ultimately show "let g = samples_of_day key (key (date d)) xs in
        g \<noteq> [] \<and>
        maxTemp d = Some (Math_round (Max (set (map (\<lambda>item. temp (main item)) g)))) \<and>
        minTemp d = Some (Math_round (Min (set (map (\<lambda>item. temp (main item)) g)))) \<and>
        avgHumidity d =
          map_option Math_round (binary64_mean (map (\<lambda>item. humidity (main item)) g)) \<and>
        avgWindSpeed d =
          map_option Math_round
            (do { m \<leftarrow> binary64_mean (map (\<lambda>item. speed (wind item)) g);
                  k \<leftarrow> to_double 3.6;
                  fl_mul m k })"
      using g unfolding Let_def g_def by blast
  qed
  have percentages: "\<forall>d\<in>set (groupForecastByDay key xs). \<forall>percentages.
      map (\<lambda>item. humidity (main item)) (samples_of_day key (key (date d)) xs) =
        map of_int percentages \<and>
      (\<forall>i\<in>set percentages. \<bar>i\<bar> \<le> 100) \<and> length percentages \<le> 1000000 \<longrightarrow>
        avgHumidity d =
          Some (Math_round
            (sum_list (map (\<lambda>item. humidity (main item))
               (samples_of_day key (key (date d)) xs)) /
             real (length (samples_of_day key (key (date d)) xs))))"
  proof (intro ballI allI impI)
    fix d percentages
    assume mem: "d \<in> set (groupForecastByDay key xs)"
    define g where "g = samples_of_day key (key (date d)) xs"
    assume "map (\<lambda>item. humidity (main item)) (samples_of_day key (key (date d)) xs) =
        map of_int percentages \<and>
      (\<forall>i\<in>set percentages. \<bar>i\<bar> \<le> 100) \<and> length percentages \<le> 1000000"
    then have eq: "map (\<lambda>item. humidity (main item)) g = map of_int percentages"
      and bound: "\<forall>i\<in>set percentages. \<bar>i\<bar> \<le> 100" and len: "length percentages \<le> 1000000"
      by (simp_all add: g_def)
    from formulas mem have g: "g \<noteq> []"
      and avg: "avgHumidity d =
        map_option Math_round (binary64_mean (map (\<lambda>item. humidity (main item)) g))"
      unfolding Let_def g_def by blast+
    from eq have same_length: "length g = length percentages"
      by (metis length_map)
    with g have "percentages \<noteq> []" by auto
    from mean_of_integers [OF bound this len]
    have "map_option Math_round (binary64_mean (map of_int percentages)) =
           Some (Math_round (sum_list (map of_int percentages) / real (length percentages)))" .
    then have "avgHumidity d =
          Some (Math_round (sum_list (map (\<lambda>item. humidity (main item)) g) / real (length g)))"
      by (simp only: avg eq same_length)
    then show "avgHumidity d =
          Some (Math_round
            (sum_list (map (\<lambda>item. humidity (main item))
               (samples_of_day key (key (date d)) xs)) /
             real (length (samples_of_day key (key (date d)) xs))))"
      by (simp only: g_def)
  qed
  from formulas percentages wind show ?thesis by (intro conjI)
qed

theorem C2_aggregation_formulas_witness:
  "example_summary_day0 \<in> set (groupForecastByDay utcDay example_forecast) \<and>
   samples_of_day utcDay (utcDay (date example_summary_day0)) example_forecast \<noteq> [] \<and>
   avgWindSpeed example_summary_day0 =
     map_option Math_round
       (do { m \<leftarrow> binary64_mean (map (\<lambda>item. speed (wind item))
                    (samples_of_day utcDay (utcDay (date example_summary_day0)) example_forecast));
             k \<leftarrow> to_double 3.6;
             fl_mul m k }) \<and>
   avgWindSpeed example_summary_day0 = Some 22 \<and>
   map (\<lambda>item. humidity (main item))
     (samples_of_day utcDay (utcDay (date example_summary_day0)) example_forecast) =
     map of_int [50, 70] \<and>
   \<bar>50 :: int\<bar> \<le> 100 \<and> \<bar>70 :: int\<bar> \<le> 100 \<and> length [50, 70 :: int] \<le> 1000000 \<and>
   avgHumidity example_summary_day0 =
     Some (Math_round
       (sum_list (map (\<lambda>item. humidity (main item))
          (samples_of_day utcDay (utcDay (date example_summary_day0)) example_forecast)) /
        real (length (samples_of_day utcDay (utcDay (date example_summary_day0)) example_forecast)))) \<and>
   avgHumidity example_summary_day0 = Some 60"
proof -
  have mem: "example_summary_day0 \<in> set (groupForecastByDay utcDay example_forecast)"
    by (simp add: example_summaries)
  have outcome: "avgWindSpeed example_summary_day0 = Some 22"
    "avgHumidity example_summary_day0 = Some 60"
    by (simp_all add: example_summary_day0_def)
  have "utcDay (date example_summary_day0) = 0"
    by (simp add: example_summary_day0_def utcDay_def)
  then have hum: "map (\<lambda>item. humidity (main item))
     (samples_of_day utcDay (utcDay (date example_summary_day0)) example_forecast) =
     map of_int [50, 70]"
    by (simp add: example_samples_day0 sample_def)
  have bounds: "\<forall>i\<in>set [50, 70 :: int]. \<bar>i\<bar> \<le> 100" "length [50, 70 :: int] \<le> 1000000"
    by simp_all
  note inst = C2_aggregation_formulas [of utcDay example_forecast]
  from inst mem have first: "samples_of_day utcDay (utcDay (date example_summary_day0)) example_forecast \<noteq> [] \<and>
   avgWindSpeed example_summary_day0 =
     map_option Math_round
       (do { m \<leftarrow> binary64_mean (map (\<lambda>item. speed (wind item))
                    (samples_of_day utcDay (utcDay (date example_summary_day0)) example_forecast));
             k \<leftarrow> to_double 3.6;
             fl_mul m k })"
    unfolding Let_def by blast
  from inst mem hum bounds have second: "avgHumidity example_summary_day0 =
     Some (Math_round
       (sum_list (map (\<lambda>item. humidity (main item))
          (samples_of_day utcDay (utcDay (date example_summary_day0)) example_forecast)) /
        real (length (samples_of_day utcDay (utcDay (date example_summary_day0)) example_forecast))))"
    by blast
  from mem first second outcome hum show ?thesis by simp
qed

text \<open>
  With the mean and the product of the reals in place of the binary64 ones, the formula
  for the average wind speed fails: for one day with the two wind speeds 0.02 and 2.48,
  as binary64 values, the summary has 5, and the exact mean times 3.6, rounded, is 4.
\<close>

theorem C2_exact_mean_counterexample:
  "to_double 0.02 = Some wind_0_02 \<and>
   to_double 2.48 = Some wind_2_48 \<and>
   samples_of_day utcDay 0 example_two_decimals = example_two_decimals \<and>
   map (speed \<circ> wind) example_two_decimals = [wind_0_02, wind_2_48] \<and>
   map avgWindSpeed (groupForecastByDay utcDay example_two_decimals) = [Some 5] \<and>
   Math_round (sum_list [wind_0_02, wind_2_48] / 2 * 3.6) = 4"
proof -
  have "to_double 0.02 = Some wind_0_02" and "to_double 2.48 = Some wind_2_48"
    by (simp_all add: wind_0_02_def wind_2_48_def to_double_examples fl_defs)
  moreover have "Math_round (sum_list [wind_0_02, wind_2_48] / 2 * 3.6) = 4"
    by (simp add: wind_0_02_def wind_2_48_def Math_round_def)
  moreover have "map (speed \<circ> wind) example_two_decimals = [wind_0_02, wind_2_48]"
    using example_two_decimals_wind by (simp add: comp_def)
  ultimately show ?thesis
    by (simp add: example_two_decimals_day example_two_decimals_summary)
qed

text \<open>
  Claim C6. The weather of every summary is the first condition of the first sample of
  its day in input order. Two samples of one day with the conditions rain and clear, in
  this order, give rain.
\<close>

theorem C6_first_sample_weather:
  "(\<forall>d\<in>set (groupForecastByDay key xs).
      \<exists>item rest. samples_of_day key (key (date d)) xs = item # rest \<and>
        f_weather d = first_elem (weather item)) \<and>
   map f_weather (groupForecastByDay key [sample t tp h ws ''rain'', sample t tp' h' ws' ''clear''])
     = [Some (condition ''rain'')]"
proof -
  have "\<forall>d\<in>set (groupForecastByDay key xs).
      \<exists>item rest. samples_of_day key (key (date d)) xs = item # rest \<and>
        f_weather d = first_elem (weather item)"
  proof
    fix d assume "d \<in> set (groupForecastByDay key xs)"
    from summary_of_group [OF this]
    have ne: "samples_of_day key (key (date d)) xs \<noteq> []"
      and d: "d = summarise (acc_of (samples_of_day key (key (date d)) xs))"
      by simp_all
    from ne obtain item rest where g: "samples_of_day key (key (date d)) xs = item # rest"
      by (cases "samples_of_day key (key (date d)) xs") auto
    have "f_weather d = first_elem (weather item)"
      by (subst d) (simp add: g summarise_def acc_of_def)
    with g show "\<exists>item rest. samples_of_day key (key (date d)) xs = item # rest \<and>
        f_weather d = first_elem (weather item)"
      by blast
  qed
  moreover have "map f_weather
      (groupForecastByDay key [sample t tp h ws ''rain'', sample t tp' h' ws' ''clear''])
       = [Some (condition ''rain'')]"
    by (simp add: two_samples_same_time)
  ultimately show ?thesis by blast
qed

theorem C6_first_sample_weather_witness:
  "example_summary_day0 \<in> set (groupForecastByDay utcDay example_forecast) \<and>
   (\<exists>item rest.
      samples_of_day utcDay (utcDay (date example_summary_day0)) example_forecast = item # rest \<and>
      f_weather example_summary_day0 = first_elem (weather item)) \<and>
   f_weather example_summary_day0 = Some (condition ''rain'')"
proof -
  have mem: "example_summary_day0 \<in> set (groupForecastByDay utcDay example_forecast)"
    by (simp add: example_summaries)
  have "f_weather example_summary_day0 = Some (condition ''rain'')"
    by (simp add: example_summary_day0_def)
  with mem show ?thesis
    using C6_first_sample_weather [of utcDay example_forecast] by blast
qed

text \<open>
  Claim C7. In every summary the maximum temperature is not below the minimum
  temperature, and a summary whose day has exactly one sample has both equal to the
  rounded temperature of that sample.
\<close>

theorem C7_max_not_below_min:
  "(\<forall>d\<in>set (groupForecastByDay key xs).
      \<exists>mx mn. maxTemp d = Some mx \<and> minTemp d = Some mn \<and> mn \<le> mx) \<and>
   (\<forall>d\<in>set (groupForecastByDay key xs). \<forall>item.
      samples_of_day key (key (date d)) xs = [item] \<longrightarrow>
        maxTemp d = Some (Math_round (temp (main item))) \<and>
        minTemp d = Some (Math_round (temp (main item))))"
proof -
  have "\<exists>mx mn. maxTemp d = Some mx \<and> minTemp d = Some mn \<and> mn \<le> mx"
    if "d \<in> set (groupForecastByDay key xs)" for d
  proof -
    from summary_of_group [OF that]
    have ne: "samples_of_day key (key (date d)) xs \<noteq> []"
      and d: "d = summarise (acc_of (samples_of_day key (key (date d)) xs))"
      by simp_all
    define ts where "ts = map (\<lambda>item. temp (main item)) (samples_of_day key (key (date d)) xs)"
    from ne have ts: "ts \<noteq> []" by (simp add: ts_def)
    have mx: "maxTemp d = Some (Math_round (Max (set ts)))"
      using ts by (subst d) (simp add: summarise_def acc_of_def Math_max_Max ts_def)
    have mn: "minTemp d = Some (Math_round (Min (set ts)))"
      using ts by (subst d) (simp add: summarise_def acc_of_def Math_min_Min ts_def)
    from ts have "Min (set ts) \<le> Max (set ts)" by simp
    then have "Math_round (Min (set ts)) \<le> Math_round (Max (set ts))"
      by (rule Math_round_mono)
    with mx mn show ?thesis by blast
  qed
  moreover have "maxTemp d = Some (Math_round (temp (main item))) \<and>
        minTemp d = Some (Math_round (temp (main item)))"
    if "d \<in> set (groupForecastByDay key xs)"
      and single: "samples_of_day key (key (date d)) xs = [item]" for d item
  proof -
    from summary_of_group [OF that(1)]
    have "d = summarise (acc_of (samples_of_day key (key (date d)) xs))" by simp
    then have "d = summarise (acc_of [item])" by (simp only: single)
    then show ?thesis by (simp add: summarise_def acc_of_def)
  qed
  ultimately show ?thesis by blast
qed

theorem C7_max_not_below_min_witness:
  "example_summary_day1 \<in> set (groupForecastByDay utcDay example_forecast) \<and>
   samples_of_day utcDay (utcDay (date example_summary_day1)) example_forecast
     = [sample 86400 12 60 3 ''clouds''] \<and>
   maxTemp example_summary_day1 = Some (Math_round (temp (main (sample 86400 12 60 3 ''clouds'')))) \<and>
   minTemp example_summary_day1 = Some (Math_round (temp (main (sample 86400 12 60 3 ''clouds'')))) \<and>
   (\<exists>mx mn. maxTemp example_summary_day1 = Some mx \<and> minTemp example_summary_day1 = Some mn \<and>
      mn \<le> mx)"
proof -
  have mem: "example_summary_day1 \<in> set (groupForecastByDay utcDay example_forecast)"
    by (simp add: example_summaries)
  have "utcDay (date example_summary_day1) = 1"
    by (simp add: example_summary_day1_def utcDay_def)
  then have single: "samples_of_day utcDay (utcDay (date example_summary_day1)) example_forecast
                  = [sample 86400 12 60 3 ''clouds'']"
    by (simp only: example_samples_day1)
  with mem show ?thesis
    using C7_max_not_below_min [of utcDay example_forecast] by blast
qed

text \<open>
  Claim C8. The summaries come in the order in which their days first occur in the
  input: the keys of the summaries are the keys of the input with later repetitions
  removed, the positions of the first samples of the groups increase strictly along the
  output, and the date of each summary is the time of the first sample of its day. The
  output is not sorted by date: with the later day first in the input, the later day is
  first in the output.
\<close>

theorem C8_first_encounter_order:
  "map (\<lambda>d. key (date d)) (groupForecastByDay key xs) = first_keys (map (dayKey key) xs) \<and>
   sorted_wrt (<) (map (\<lambda>d. first_index key xs (key (date d))) (groupForecastByDay key xs)) \<and>
   (\<forall>d\<in>set (groupForecastByDay key xs).
      first_index key xs (key (date d)) < length xs \<and>
      date d = dt (xs ! first_index key xs (key (date d))) * 1000) \<and>
   map date (groupForecastByDay utcDay example_later_day_first) = [86400000, 0]"
proof -
  have keys: "map (\<lambda>d. key (date d)) (groupForecastByDay key xs) = first_keys (map (dayKey key) xs)"
    by (rule summary_keys)
  have "map (\<lambda>d. first_index key xs (key (date d))) (groupForecastByDay key xs) =
        map (first_index key xs) (map (\<lambda>d. key (date d)) (groupForecastByDay key xs))"
    by (simp add: comp_def)
  then have order: "sorted_wrt (<)
      (map (\<lambda>d. first_index key xs (key (date d))) (groupForecastByDay key xs))"
    by (simp only: keys sorted_wrt_map first_keys_by_first_index)
  have first: "first_index key xs (key (date d)) < length xs \<and>
      date d = dt (xs ! first_index key xs (key (date d))) * 1000"
    if "d \<in> set (groupForecastByDay key xs)" for d
  proof -
    from that obtain k where k: "k \<in> dayKey key ` set xs"
      and d: "d = summarise (acc_of (samples_of_day key k xs))" and kd: "key (date d) = k"
      by (rule summary_in_output)
    from k obtain item rest where g: "samples_of_day key k xs = item # rest"
      by (rule samples_of_day_head)
    have "date d = dt item * 1000"
      by (subst d) (simp add: g summarise_def acc_of_def)
    then have "date d = dt (xs ! first_index key xs k) * 1000"
      by (simp only: group_first_sample [OF g])
    with first_index_old(2) [OF k] show ?thesis
      unfolding kd by blast
  qed
  from keys order first example_later_day_first_dates show ?thesis by blast
qed

theorem C8_first_encounter_order_witness:
  "example_summary_day1 \<in> set (groupForecastByDay utcDay example_forecast) \<and>
   first_index utcDay example_forecast (utcDay (date example_summary_day1))
     < length example_forecast \<and>
   date example_summary_day1 =
     dt (example_forecast ! first_index utcDay example_forecast
           (utcDay (date example_summary_day1))) * 1000"
proof -
  have mem: "example_summary_day1 \<in> set (groupForecastByDay utcDay example_forecast)"
    by (simp add: example_summaries)
  then show ?thesis
    using C8_first_encounter_order [of utcDay example_forecast] by blast
qed

section \<open>Properties of the queries, the display and the start-up\<close>

subsection \<open>What the rendering leaves unchanged\<close>

lemma same_globals:
  assumes "st'\<lparr>els := e\<rparr> = st"
  shows "currentWeatherData st' = currentWeatherData st"
    and "currentUnit st' = currentUnit st"
    and "currentLocation st' = currentLocation st"
    and "listeners st' = listeners st"
    and "started st' = started st"
proof -
  have "currentWeatherData (st'\<lparr>els := e\<rparr>) = currentWeatherData st"
    and "currentUnit (st'\<lparr>els := e\<rparr>) = currentUnit st"
    and "currentLocation (st'\<lparr>els := e\<rparr>) = currentLocation st"
    and "listeners (st'\<lparr>els := e\<rparr>) = listeners st"
    and "started (st'\<lparr>els := e\<rparr>) = started st"
    by (simp_all only: assms)
  then show "currentWeatherData st' = currentWeatherData st"
    and "currentUnit st' = currentUnit st"
    and "currentLocation st' = currentLocation st"
    and "listeners st' = listeners st"
    and "started st' = started st"
    by simp_all
qed

lemma updateCurrentWeatherUI_globals:
  "(fst (updateCurrentWeatherUI data st))\<lparr>els := els st\<rparr> = st"
  by (cases "first_elem (weather data)")
     (simp_all add: updateCurrentWeatherUI_def updateWeatherIcon_def Let_def)

lemma append_cards_globals:
  "(fst (append_cards fs i st))\<lparr>els := els st\<rparr> = st"
proof (induction fs arbitrary: i st)
  case Nil
  show ?case by simp
next
  case (Cons f fs)
  show ?case
  proof (cases "createForecastCard (currentUnit st) f i")
    case (Inl e)
    then show ?thesis by simp
  next
    case (Inr c)
    let ?st' = "st\<lparr>els := (els st)\<lparr>el_forecastContainer := el_forecastContainer (els st) @ [c]\<rparr>\<rparr>"
    have "(fst (append_cards fs (Suc i) ?st'))\<lparr>els := els ?st'\<rparr> = ?st'"
      by (rule Cons.IH)
    then have "(fst (append_cards fs (Suc i) ?st'))\<lparr>els := els ?st'\<rparr>\<lparr>els := els st\<rparr>
                 = ?st'\<lparr>els := els st\<rparr>"
      by (simp only:)
    then have "(fst (append_cards fs (Suc i) ?st'))\<lparr>els := els st\<rparr> = st"
      by simp
    with Inr show ?thesis by simp
  qed
qed

lemma updateForecastUI_globals:
  "(fst (updateForecastUI env data st))\<lparr>els := els st\<rparr> = st"
proof -
  let ?st1 = "st\<lparr>els := (els st)\<lparr>el_forecastContainer := []\<rparr>\<rparr>"
  let ?r = "fst (append_cards (take 5 (groupForecastByDay (toDateString env) data)) 0 ?st1)"
  have "?r\<lparr>els := els ?st1\<rparr> = ?st1"
    by (rule append_cards_globals)
  then have "?r\<lparr>els := els ?st1\<rparr>\<lparr>els := els st\<rparr> = ?st1\<lparr>els := els st\<rparr>"
    by (simp only:)
  then have "?r\<lparr>els := els st\<rparr> = st" by simp
  then show ?thesis
    by (simp add: updateForecastUI_def Let_def)
qed

lemma getWeatherByCoordinates_failure:
  assumes "\<forall>currentData. weather_by_coordinates env la lo \<noteq> Payload currentData"
  shows "getWeatherByCoordinates env la lo cn st =
           showError ''Unable to fetch weather data. Please try again.''
             (st\<lparr>started := started st @ [Fetch_weather_by_coordinates la lo]\<rparr>)"
  using assms
  by (cases "weather_by_coordinates env la lo") (simp_all add: getWeatherByCoordinates_def Let_def)

lemma getWeatherByCoordinates_forecast_failure:
  assumes "weather_by_coordinates env la lo = Payload currentData"
    and "\<forall>forecastData. forecast_by_coordinates env la lo \<noteq> Payload forecastData"
  shows "getWeatherByCoordinates env la lo cn st =
           showError ''Unable to fetch weather data. Please try again.''
             (st\<lparr>started := started st @
                [Fetch_weather_by_coordinates la lo, Fetch_forecast_by_coordinates la lo]\<rparr>)"
  using assms
  by (cases "forecast_by_coordinates env la lo") (simp_all add: getWeatherByCoordinates_def Let_def)

lemma getWeatherByCoordinates_success:
  assumes "weather_by_coordinates env la lo = Payload currentData"
    and "forecast_by_coordinates env la lo = Payload forecastData"
  shows "(getWeatherByCoordinates env la lo cn st)\<lparr>els := els st\<rparr> =
           st\<lparr>currentWeatherData := Some (currentData, forecastData),
              started := started st @
                [Fetch_weather_by_coordinates la lo, Fetch_forecast_by_coordinates la lo]\<rparr>"
proof -
  let ?st3 = "st\<lparr>started := started st @
                [Fetch_weather_by_coordinates la lo, Fetch_forecast_by_coordinates la lo],
               currentWeatherData := Some (currentData, forecastData)\<rparr>"
  obtain st4 r4 where u4: "updateCurrentWeatherUI currentData ?st3 = (st4, r4)"
    by (cases "updateCurrentWeatherUI currentData ?st3")
  have "st4\<lparr>els := els ?st3\<rparr> = ?st3"
    using updateCurrentWeatherUI_globals [where data = currentData and st = ?st3] u4 by simp
  then have e4: "st4\<lparr>els := els st\<rparr> = ?st3" by simp
  obtain st5 r5 where u5: "updateForecastUI env forecastData st4 = (st5, r5)"
    by (cases "updateForecastUI env forecastData st4")
  have "st5\<lparr>els := els st4\<rparr> = st4"
    using updateForecastUI_globals [where env = env and data = forecastData and st = st4] u5 by simp
  then have "st5\<lparr>els := els st4\<rparr>\<lparr>els := els st\<rparr> = st4\<lparr>els := els st\<rparr>"
    by (simp only:)
  then have e5: "st5\<lparr>els := els st\<rparr> = ?st3" by (simp add: e4)
  have "getWeatherByCoordinates env la lo cn st =
          (case r4 of
             Some e \<Rightarrow> showError ''Unable to fetch weather data. Please try again.'' st4
           | None \<Rightarrow> (case r5 of
                Some e \<Rightarrow> showError ''Unable to fetch weather data. Please try again.'' st5
              | None \<Rightarrow> hideError (hideLoading st5)))"
    using assms u4 u5
    by (simp add: getWeatherByCoordinates_def Let_def split: option.splits)
  then show ?thesis
    using e4 e5
    by (cases r4; cases r5)
       (simp_all add: showError_def hideError_def hideLoading_def)
qed

lemma getWeatherByCoordinates_started:
  "\<exists>ops. started (getWeatherByCoordinates env la lo cn st) =
          started st @ Fetch_weather_by_coordinates la lo # ops"
proof (cases "weather_by_coordinates env la lo")
  case (Payload currentData)
  note cur = this
  show ?thesis
  proof (cases "forecast_by_coordinates env la lo")
    case (Payload forecastData)
    from same_globals(5) [OF getWeatherByCoordinates_success [OF cur Payload, where cn = cn and st = st]]
    show ?thesis by simp
  qed (simp_all add: getWeatherByCoordinates_forecast_failure [OF cur] showError_def)
qed (simp_all add: getWeatherByCoordinates_failure showError_def)

lemma getWeatherByCoordinates_currentLocation:
  "currentLocation (getWeatherByCoordinates env la lo cn st) = currentLocation st"
proof (cases "weather_by_coordinates env la lo")
  case (Payload currentData)
  note cur = this
  show ?thesis
  proof (cases "forecast_by_coordinates env la lo")
    case (Payload forecastData)
    from same_globals(3) [OF getWeatherByCoordinates_success [OF cur Payload, where cn = cn and st = st]]
    show ?thesis by simp
  qed (simp_all add: getWeatherByCoordinates_forecast_failure [OF cur] showError_def)
qed (simp_all add: getWeatherByCoordinates_failure showError_def)

subsection \<open>Units\<close>

lemma loaded_state_eq:
  "loaded_state =
     \<lparr>currentWeatherData = Some (example_current, example_forecast),
      currentUnit = Celsius,
      currentLocation = \<lparr>lat = None, lon = None\<rparr>,
      els = \<lparr>el_currentLocation = ''Pontianak, ID'',
         el_currentTemp = \<lparr>number = Some 20, letter = ''C''\<rparr>,
         el_weatherIcon = ''fas fa-cloud-sun-rain weather-icon'',
         el_weatherDescription = ''clear'',
         el_feelsLike = \<lparr>number = Some 18, letter = ''C''\<rparr>,
         el_humidity = 55, el_windSpeed = Some 14, el_pressure = 1012,
         el_visibility = Some 10,
         el_forecastContainer =
           [\<lparr>card_today = True, card_icon = ''cloud-sun-rain'',
               forecast_high = \<lparr>number = Some 14, letter = ''C''\<rparr>,
               forecast_low = \<lparr>number = Some 10, letter = ''C''\<rparr>,
               forecast_desc = ''rain'', card_humidity = Some 60,
               card_wind = Some 22\<rparr>,
            \<lparr>card_today = False, card_icon = ''cloud-sun-rain'',
               forecast_high = \<lparr>number = Some 12, letter = ''C''\<rparr>,
               forecast_low = \<lparr>number = Some 12, letter = ''C''\<rparr>,
               forecast_desc = ''clouds'', card_humidity = Some 60,
               card_wind = Some 11\<rparr>],
         el_errorText = [], el_errorMessage_hidden = True, el_loading_hidden = True,
         el_celsiusBtn_active = True, el_fahrenheitBtn_active = False\<rparr>,
      listeners = [],
      started = [Fetch_weather_by_coordinates 0 109.3, Fetch_forecast_by_coordinates 0 109.3]\<rparr>"
  by (simp add: loaded_state_def getWeatherByCoordinates_def example_env_def initial_state_def
        initial_elements_def updateCurrentWeatherUI_def updateWeatherIcon_def
        updateForecastUI_def example_summaries example_summary_day0_def
        example_summary_day1_def createForecastCard_def getWeatherIconClass_def
        iconMap_current_def iconMap_forecast_def example_current_def condition_def
        first_elem_def unit_letter_def Math_round_def hideError_def hideLoading_def Let_def
        literal_3_6 to_double_examples fl_defs)


lemma switched_state_els:
  "els (fst (switchTemperatureUnit example_env Fahrenheit loaded_state)) =
     \<lparr>el_currentLocation = ''Pontianak, ID'',
         el_currentTemp = \<lparr>number = Some 20, letter = ''F''\<rparr>,
         el_weatherIcon = ''fas fa-cloud-sun-rain weather-icon'',
         el_weatherDescription = ''clear'',
         el_feelsLike = \<lparr>number = Some 18, letter = ''F''\<rparr>,
         el_humidity = 55, el_windSpeed = Some 14, el_pressure = 1012,
         el_visibility = Some 10,
         el_forecastContainer =
           [\<lparr>card_today = True, card_icon = ''cloud-sun-rain'',
               forecast_high = \<lparr>number = Some 57, letter = ''F''\<rparr>,
               forecast_low = \<lparr>number = Some 50, letter = ''F''\<rparr>,
               forecast_desc = ''rain'', card_humidity = Some 60,
               card_wind = Some 22\<rparr>,
            \<lparr>card_today = False, card_icon = ''cloud-sun-rain'',
               forecast_high = \<lparr>number = Some 54, letter = ''F''\<rparr>,
               forecast_low = \<lparr>number = Some 54, letter = ''F''\<rparr>,
               forecast_desc = ''clouds'', card_humidity = Some 60,
               card_wind = Some 11\<rparr>],
         el_errorText = [], el_errorMessage_hidden = True, el_loading_hidden = True,
         el_celsiusBtn_active = False, el_fahrenheitBtn_active = True\<rparr>"
  by (simp add: loaded_state_eq switchTemperatureUnit_def example_env_def
        updateCurrentWeatherUI_def updateWeatherIcon_def
        updateForecastUI_def example_summaries example_summary_day0_def
        example_summary_day1_def createForecastCard_def getWeatherIconClass_def
        iconMap_current_def iconMap_forecast_def example_current_def condition_def
        first_elem_def unit_letter_def Math_round_def celsiusToFahrenheit_def Let_def
        literal_3_6 to_double_examples fl_defs)

lemma updateCurrentWeatherUI_currentTemp:
  "el_currentTemp (els (fst (updateCurrentWeatherUI data st))) =
     \<lparr>number = Some (Math_round (temp (main data))), letter = unit_letter (currentUnit st)\<rparr>"
  by (cases "first_elem (weather data)")
     (simp_all add: updateCurrentWeatherUI_def updateWeatherIcon_def Let_def)

lemma switchTemperatureUnit_globals:
  "(fst (switchTemperatureUnit env unit st))\<lparr>els := els st, currentUnit := currentUnit st\<rparr> = st"
proof (cases "currentUnit st = unit")
  case True
  then show ?thesis by (simp add: switchTemperatureUnit_def)
next
  case False
  let ?st2 = "st\<lparr>currentUnit := unit,
                 els := (els st)\<lparr>el_celsiusBtn_active := (unit = Celsius),
                                  el_fahrenheitBtn_active := (unit = Fahrenheit)\<rparr>\<rparr>"
  show ?thesis
  proof (cases "currentWeatherData st")
    case None
    with False show ?thesis by (simp add: switchTemperatureUnit_def Let_def)
  next
    case (Some p)
    obtain current forecast where p: "p = (current, forecast)" by (cases p)
    obtain st3 r3 where u3: "updateCurrentWeatherUI current ?st2 = (st3, r3)"
      by (cases "updateCurrentWeatherUI current ?st2")
    have "st3\<lparr>els := els ?st2\<rparr> = ?st2"
      using updateCurrentWeatherUI_globals [where data = current and st = ?st2] u3 by simp
    then have "st3\<lparr>els := els ?st2\<rparr>\<lparr>els := els st, currentUnit := currentUnit st\<rparr> =
               ?st2\<lparr>els := els st, currentUnit := currentUnit st\<rparr>"
      by (simp only:)
    then have e3: "st3\<lparr>els := els st, currentUnit := currentUnit st\<rparr> = st" by simp
    obtain st4 r4 where u4: "updateForecastUI env forecast st3 = (st4, r4)"
      by (cases "updateForecastUI env forecast st3")
    have "st4\<lparr>els := els st3\<rparr> = st3"
      using updateForecastUI_globals [where env = env and data = forecast and st = st3] u4
      by simp
    then have "st4\<lparr>els := els st3\<rparr>\<lparr>els := els st, currentUnit := currentUnit st\<rparr> =
               st3\<lparr>els := els st, currentUnit := currentUnit st\<rparr>"
      by (simp only:)
    then have e4: "st4\<lparr>els := els st, currentUnit := currentUnit st\<rparr> = st"
      by (simp add: e3)
    have "fst (switchTemperatureUnit env unit st) = (case r3 of Some e \<Rightarrow> st3 | None \<Rightarrow> st4)"
      using False Some p u3 u4
      by (simp add: switchTemperatureUnit_def Let_def split: option.splits)
    then show ?thesis using e3 e4 by (cases r3) simp_all
  qed
qed

lemma celsiusToFahrenheit_near:
  assumes c: "\<bar>c\<bar> \<le> 1000000"
  shows "\<exists>t2 f. celsiusToFahrenheit c = Some f \<and> \<bar>t2\<bar> \<le> 1800001 \<and>
           \<bar>t2 - c * 9 / 5\<bar> \<le> 405 / 1000000000000 \<and>
           \<bar>f - (t2 + 32)\<bar> \<le> 202 / 1000000000000"
proof -
  have "\<bar>c * 9\<bar> \<le> 9000000" using c by argo
  then have "\<exists>y. to_double (c * 9) = Some y \<and> \<bar>y - c * 9\<bar> \<le> 1010 / 1000000000000"
    by (rule to_double_near) simp_all
  then obtain t1 where t1: "fl_mul c 9 = Some t1" "\<bar>t1 - c * 9\<bar> \<le> 1010 / 1000000000000"
    by (auto simp: fl_mul_def)
  have "\<bar>t1 / 5\<bar> \<le> 1800001" using t1(2) c by argo
  then have "\<exists>y. to_double (t1 / 5) = Some y \<and> \<bar>y - t1 / 5\<bar> \<le> 202 / 1000000000000"
    by (rule to_double_near) simp_all
  then obtain t2 where t2: "fl_div t1 5 = Some t2" "\<bar>t2 - t1 / 5\<bar> \<le> 202 / 1000000000000"
    by (auto simp: fl_div_def)
  have b2: "\<bar>t2\<bar> \<le> 1800001" using t1(2) t2(2) c by argo
  have e2: "\<bar>t2 - c * 9 / 5\<bar> \<le> 405 / 1000000000000" using t1(2) t2(2) by argo
  have "\<bar>t2 + 32\<bar> \<le> 1800033" using b2 by argo
  then have "\<exists>y. to_double (t2 + 32) = Some y \<and> \<bar>y - (t2 + 32)\<bar> \<le> 202 / 1000000000000"
    by (rule to_double_near) simp_all
  then obtain f where f: "fl_add t2 32 = Some f" "\<bar>f - (t2 + 32)\<bar> \<le> 202 / 1000000000000"
    by (auto simp: fl_add_def)
  have "celsiusToFahrenheit c = Some f"
    by (simp add: celsiusToFahrenheit_def t1(1) t2(1) f(1))
  with f(2) b2 e2 show ?thesis by blast
qed

lemma fahrenheitToCelsius_near:
  assumes f: "\<bar>f - 32\<bar> \<le> 1800002"
  shows "\<exists>r. fahrenheitToCelsius f = Some r \<and>
           \<bar>r - (f - 32) * 5 / 9\<bar> \<le> 340 / 1000000000000"
proof -
  have "\<exists>y. to_double (f - 32) = Some y \<and> \<bar>y - (f - 32)\<bar> \<le> 202 / 1000000000000"
    using f by (rule to_double_near) simp_all
  then obtain t4 where t4: "fl_sub f 32 = Some t4" "\<bar>t4 - (f - 32)\<bar> \<le> 202 / 1000000000000"
    by (auto simp: fl_sub_def)
  have "\<bar>t4 * 5\<bar> \<le> 9000011" using t4(2) f by argo
  then have "\<exists>y. to_double (t4 * 5) = Some y \<and> \<bar>y - t4 * 5\<bar> \<le> 1010 / 1000000000000"
    by (rule to_double_near) simp_all
  then obtain t5 where t5: "fl_mul t4 5 = Some t5" "\<bar>t5 - t4 * 5\<bar> \<le> 1010 / 1000000000000"
    by (auto simp: fl_mul_def)
  have "\<bar>t5 / 9\<bar> \<le> 1000002" using t5(2) t4(2) f by argo
  then have "\<exists>y. to_double (t5 / 9) = Some y \<and> \<bar>y - t5 / 9\<bar> \<le> 115 / 1000000000000"
    by (rule to_double_near) simp_all
  then obtain r where r: "fl_div t5 9 = Some r" "\<bar>r - t5 / 9\<bar> \<le> 115 / 1000000000000"
    by (auto simp: fl_div_def)
  have "\<bar>r - (f - 32) * 5 / 9\<bar> \<le> 340 / 1000000000000" using r(2) t5(2) t4(2) by argo
  moreover have "fahrenheitToCelsius f = Some r"
    by (simp add: fahrenheitToCelsius_def t4(1) t5(1) r(1))
  ultimately show ?thesis by blast
qed

lemma round_trip_near:
  assumes c: "\<bar>c\<bar> \<le> 1000000"
  shows "\<exists>f r. celsiusToFahrenheit c = Some f \<and> \<bar>f - (c * 9 / 5 + 32)\<bar> \<le> 1 / 10 ^ 9 \<and>
           fahrenheitToCelsius f = Some r \<and> \<bar>r - c\<bar> \<le> 1 / 10 ^ 9"
proof -
  from celsiusToFahrenheit_near [OF c]
  obtain t2 f where f: "celsiusToFahrenheit c = Some f" and b2: "\<bar>t2\<bar> \<le> 1800001"
    and e2: "\<bar>t2 - c * 9 / 5\<bar> \<le> 405 / 1000000000000"
    and e3: "\<bar>f - (t2 + 32)\<bar> \<le> 202 / 1000000000000"
    by blast
  have "\<bar>f - 32\<bar> \<le> 1800002" using b2 e3 by argo
  from fahrenheitToCelsius_near [OF this]
  obtain r where r: "fahrenheitToCelsius f = Some r"
    "\<bar>r - (f - 32) * 5 / 9\<bar> \<le> 340 / 1000000000000"
    by blast
  have "\<bar>f - (c * 9 / 5 + 32)\<bar> \<le> 1 / 1000000000" using e2 e3 by argo
  moreover have "\<bar>r - c\<bar> \<le> 1 / 1000000000" using r(2) e2 e3 by argo
  ultimately have "\<bar>f - (c * 9 / 5 + 32)\<bar> \<le> 1 / 10 ^ 9" and "\<bar>r - c\<bar> \<le> 1 / 10 ^ 9"
    by simp_all
  then show ?thesis using f r(1) by blast
qed

lemma to_double_10000000_1: "to_double 10000000.1 = Some celsius_10000000_1"
  by (simp add: celsius_10000000_1_def to_double_examples fl_defs)

lemma celsiusToFahrenheit_10000000_1:
  "celsiusToFahrenheit celsius_10000000_1 = Some fahrenheit_18000032_18"
  by (simp add: celsiusToFahrenheit_def celsius_10000000_1_def fahrenheit_18000032_18_def
        to_double_examples fl_defs)

lemma fahrenheitToCelsius_18000032_18:
  "fahrenheitToCelsius fahrenheit_18000032_18 = Some celsius_back"
  by (simp add: fahrenheitToCelsius_def fahrenheit_18000032_18_def celsius_back_def
        to_double_examples fl_defs)

lemma celsiusToFahrenheit_examples:
  "map_option Math_round (celsiusToFahrenheit 20) = Some 68"
  "map_option Math_round (celsiusToFahrenheit 18) = Some 64"
  "map_option Math_round (celsiusToFahrenheit 14) = Some 57"
  "map_option Math_round (celsiusToFahrenheit 12) = Some 54"
  by (simp_all add: celsiusToFahrenheit_def Math_round_def to_double_examples fl_defs)

text \<open>
  Claim C9, for values up to a million in magnitude. For every Celsius value \<open>c\<close> with
  \<open>\<bar>c\<bar> \<le> 1000000\<close> both conversions are finite and the value that
  \<open>fahrenheitToCelsius\<close> gives for the result of \<open>celsiusToFahrenheit\<close> is within one
  billionth of \<open>c\<close>. Neither converter rounds to a whole number or to a number of
  decimals: in this range each result is within one billionth of the exact value of its
  formula, the only rounding being that of the three binary64 operations.
\<close>

theorem C9_round_trip_within_tolerance:
  "(\<bar>c\<bar> \<le> 1000000 \<longrightarrow>
      (\<exists>f r. celsiusToFahrenheit c = Some f \<and> \<bar>f - (c * 9 / 5 + 32)\<bar> \<le> 1 / 10 ^ 9 \<and>
             fahrenheitToCelsius f = Some r \<and> \<bar>r - c\<bar> \<le> 1 / 10 ^ 9)) \<and>
   (\<bar>fahrenheit\<bar> \<le> 1000000 \<longrightarrow>
      (\<exists>celsius. fahrenheitToCelsius fahrenheit = Some celsius \<and> \<bar>celsius - (fahrenheit - 32) * 5 / 9\<bar> \<le> 1 / 10 ^ 9))"
proof (intro conjI impI)
  assume "\<bar>c\<bar> \<le> 1000000"
  then show "\<exists>f r. celsiusToFahrenheit c = Some f \<and> \<bar>f - (c * 9 / 5 + 32)\<bar> \<le> 1 / 10 ^ 9 \<and>
             fahrenheitToCelsius f = Some r \<and> \<bar>r - c\<bar> \<le> 1 / 10 ^ 9"
    by (rule round_trip_near)
next
  assume "\<bar>fahrenheit\<bar> \<le> 1000000"
  then have "\<bar>fahrenheit - 32\<bar> \<le> 1800002" by argo
  from fahrenheitToCelsius_near [OF this]
  obtain r where r: "fahrenheitToCelsius fahrenheit = Some r"
    "\<bar>r - (fahrenheit - 32) * 5 / 9\<bar> \<le> 340 / 1000000000000"
    by blast
  from r(2) have "\<bar>r - (fahrenheit - 32) * 5 / 9\<bar> \<le> 1 / 1000000000" by argo
  then have "\<bar>r - (fahrenheit - 32) * 5 / 9\<bar> \<le> 1 / 10 ^ 9" by simp
  with r(1) show "\<exists>celsius. fahrenheitToCelsius fahrenheit = Some celsius \<and>
      \<bar>celsius - (fahrenheit - 32) * 5 / 9\<bar> \<le> 1 / 10 ^ 9"
    by blast
qed

theorem C9_round_trip_within_tolerance_witness:
  "\<bar>20.4 :: real\<bar> \<le> 1000000 \<and>
   (\<exists>f r. celsiusToFahrenheit 20.4 = Some f \<and> \<bar>f - (20.4 * 9 / 5 + 32)\<bar> \<le> 1 / 10 ^ 9 \<and>
          fahrenheitToCelsius f = Some r \<and> \<bar>r - 20.4\<bar> \<le> 1 / 10 ^ 9) \<and>
   \<bar>69 :: real\<bar> \<le> 1000000 \<and>
   (\<exists>celsius. fahrenheitToCelsius 69 = Some celsius \<and> \<bar>celsius - (69 - 32) * 5 / 9\<bar> \<le> 1 / 10 ^ 9)"
proof -
  have small: "\<bar>20.4 :: real\<bar> \<le> 1000000" "\<bar>69 :: real\<bar> \<le> 1000000" by simp_all
  note inst = C9_round_trip_within_tolerance [where c = "20.4" and fahrenheit = 69]
  from inst small(1) have "\<exists>f r. celsiusToFahrenheit 20.4 = Some f \<and>
      \<bar>f - (20.4 * 9 / 5 + 32)\<bar> \<le> 1 / 10 ^ 9 \<and>
      fahrenheitToCelsius f = Some r \<and> \<bar>r - 20.4\<bar> \<le> 1 / 10 ^ 9"
    by blast
  moreover from inst small(2) have "\<exists>celsius. fahrenheitToCelsius 69 = Some celsius \<and>
      \<bar>celsius - (69 - 32) * 5 / 9\<bar> \<le> 1 / 10 ^ 9"
    by blast
  ultimately show ?thesis using small by blast
qed

text \<open>
  Without the bound the tolerance fails: the binary64 value of 10000000.1 comes back
  from the two conversions as a value that is \<open>2 ^ (- 29)\<close> away, which is more than one
  billionth.
\<close>

theorem C9_round_trip_counterexample:
  "to_double 10000000.1 = Some celsius_10000000_1 \<and>
   celsiusToFahrenheit celsius_10000000_1 = Some fahrenheit_18000032_18 \<and>
   fahrenheitToCelsius fahrenheit_18000032_18 = Some celsius_back \<and>
   1 / 10 ^ 9 < \<bar>celsius_back - celsius_10000000_1\<bar>"
proof -
  have "1 / 10 ^ 9 < \<bar>celsius_back - celsius_10000000_1\<bar>"
    by (simp add: celsius_back_def celsius_10000000_1_def)
  then show ?thesis
    by (simp only: to_double_10000000_1 celsiusToFahrenheit_10000000_1
          fahrenheitToCelsius_18000032_18 simp_thms)
qed

text \<open>
  Claim C3 says that every displayed temperature is the stored Celsius value converted to
  the active unit. \<open>updateCurrentWeatherUI\<close> does not convert: for every payload and
  every unit it shows the rounded stored value and only the letter follows the unit.
  With 20 degrees stored (feeling like 18), switching to Fahrenheit shows 20 F and 18 F,
  where the conversion gives 68 and 64; the forecast cards of the same page are
  converted by \<open>createForecastCard\<close>. The unit switch leaves the stored payload as it
  is.
\<close>

theorem C3_current_temperature_is_not_converted:
  "el_currentTemp (els (fst (updateCurrentWeatherUI data st))) =
     \<lparr>number = Some (Math_round (temp (main data))), letter = unit_letter (currentUnit st)\<rparr> \<and>
   currentWeatherData loaded_state = Some (example_current, example_forecast) \<and>
   temp (main example_current) = 20 \<and> feels_like (main example_current) = 18 \<and>
   el_currentTemp (els (fst (switchTemperatureUnit example_env Fahrenheit loaded_state))) =
     \<lparr>number = Some 20, letter = ''F''\<rparr> \<and>
   el_feelsLike (els (fst (switchTemperatureUnit example_env Fahrenheit loaded_state))) =
     \<lparr>number = Some 18, letter = ''F''\<rparr> \<and>
   map_option Math_round (celsiusToFahrenheit 20) = Some 68 \<and>
   map_option Math_round (celsiusToFahrenheit 18) = Some 64 \<and>
   map forecast_high
     (el_forecastContainer (els (fst (switchTemperatureUnit example_env Fahrenheit loaded_state)))) =
     [\<lparr>number = map_option Math_round (celsiusToFahrenheit 14), letter = ''F''\<rparr>,
      \<lparr>number = map_option Math_round (celsiusToFahrenheit 12), letter = ''F''\<rparr>] \<and>
   currentWeatherData (fst (switchTemperatureUnit env unit st)) = currentWeatherData st"
proof -
  have stored: "currentWeatherData (fst (switchTemperatureUnit env unit st)) = currentWeatherData st"
    using switchTemperatureUnit_globals [where env = env and unit = unit and st = st]
    by (metis (no_types) state.select_convs state.surjective state.update_convs)
  have payload: "temp (main example_current) = 20" "feels_like (main example_current) = 18"
    by (simp_all add: example_current_def)
  have loaded: "currentWeatherData loaded_state = Some (example_current, example_forecast)"
    by (simp add: loaded_state_eq)
  have shown: "el_currentTemp (els (fst (switchTemperatureUnit example_env Fahrenheit loaded_state))) =
      \<lparr>number = Some 20, letter = ''F''\<rparr>"
    "el_feelsLike (els (fst (switchTemperatureUnit example_env Fahrenheit loaded_state))) =
      \<lparr>number = Some 18, letter = ''F''\<rparr>"
    by (simp_all add: switched_state_els)
  have cards: "map forecast_high
     (el_forecastContainer (els (fst (switchTemperatureUnit example_env Fahrenheit loaded_state)))) =
     [\<lparr>number = map_option Math_round (celsiusToFahrenheit 14), letter = ''F''\<rparr>,
      \<lparr>number = map_option Math_round (celsiusToFahrenheit 12), letter = ''F''\<rparr>]"
    by (simp only: celsiusToFahrenheit_examples) (simp add: switched_state_els)
  show ?thesis
    by (intro conjI)
       (fact updateCurrentWeatherUI_currentTemp loaded payload shown
          celsiusToFahrenheit_examples cards stored)+
qed

subsection \<open>Start-up\<close>

lemma getCurrentLocation_started:
  "started (getCurrentLocation env st) =
     (if navigator_geolocation env then started st @ [Geolocation_request] else started st)"
  by (simp add: getCurrentLocation_def showLoading_def showError_def Let_def)

lemma getCurrentLocation_listeners:
  "listeners (getCurrentLocation env st) = listeners st"
  by (simp add: getCurrentLocation_def showLoading_def showError_def Let_def)

lemma getWeatherByCoordinates_listeners:
  "listeners (getWeatherByCoordinates env la lo cn st) = listeners st"
proof (cases "weather_by_coordinates env la lo")
  case (Payload currentData)
  note cur = this
  show ?thesis
  proof (cases "forecast_by_coordinates env la lo")
    case (Payload forecastData)
    from same_globals(4) [OF getWeatherByCoordinates_success [OF cur Payload, where cn = cn and st = st]]
    show ?thesis by simp
  qed (simp_all add: getWeatherByCoordinates_forecast_failure [OF cur] showError_def)
qed (simp_all add: getWeatherByCoordinates_failure showError_def)

lemma getWeatherByCity_started:
  "\<exists>ops. started (getWeatherByCity env city st) = started st @ Fetch_weather_by_city city # ops"
proof (cases "weather_by_city env city")
  case (Payload data)
  let ?st2 = "(showLoading st)\<lparr>started := started (showLoading st) @ [Fetch_weather_by_city city],
       currentLocation := \<lparr>lat = Some (coord_lat data), lon = Some (coord_lon data)\<rparr>\<rparr>"
  from getWeatherByCoordinates_started
    [where env = env and la = "coord_lat data" and lo = "coord_lon data" and cn = "Some city"
       and st = ?st2]
  obtain ops where "started (getWeatherByCoordinates env (coord_lat data) (coord_lon data)
      (Some city) ?st2) = started ?st2 @ Fetch_weather_by_coordinates (coord_lat data) (coord_lon data) # ops"
    by blast
  with Payload show ?thesis
    by (simp add: getWeatherByCity_def Let_def showLoading_def)
qed (simp_all add: getWeatherByCity_def Let_def showLoading_def showError_def)

lemma getWeatherByCity_listeners:
  "listeners (getWeatherByCity env city st) = listeners st"
  by (cases "weather_by_city env city")
     (simp_all add: getWeatherByCity_def Let_def showLoading_def showError_def
        getWeatherByCoordinates_listeners)

lemma loadDefaultWeather_started:
  "\<exists>ops. started (loadDefaultWeather env st) =
     started st @
       (if navigator_geolocation env then Geolocation_request
        else Fetch_weather_by_city ''New York'') # ops"
  using getWeatherByCity_started [where env = env and city = "''New York''" and st = st]
  by (simp add: loadDefaultWeather_def getCurrentLocation_started)

lemma loadDefaultWeather_listeners:
  "listeners (loadDefaultWeather env st) = listeners st"
  by (simp add: loadDefaultWeather_def getCurrentLocation_listeners getWeatherByCity_listeners)

lemma first_DOMContentLoaded_started:
  "\<exists>ops. started (first_DOMContentLoaded env st) =
     started st @
       (if navigator_geolocation env then Geolocation_request
        else Fetch_weather_by_city ''New York'') # ops"
  using loadDefaultWeather_started [where env = env and st =
      "addEventListener FahrenheitBtn_click_first
         (addEventListener CelsiusBtn_click_first
           (addEventListener LocationBtn_click_getCurrentLocation
             (addEventListener CityInput_keypress_first
               (addEventListener SearchBtn_click_handleSearch st))))"]
  by (simp add: first_DOMContentLoaded_def addEventListener_def)

lemma addEventListener_keeps:
  "l \<in> set (listeners st) \<Longrightarrow> l \<in> set (listeners (addEventListener l' st))"
  by (simp add: addEventListener_def)

lemma addEventListener_adds: "l \<in> set (listeners (addEventListener l st))"
  by (simp add: addEventListener_def)

lemma first_DOMContentLoaded_listeners:
  "SearchBtn_click_handleSearch \<in> set (listeners (first_DOMContentLoaded env st))"
  by (simp add: first_DOMContentLoaded_def loadDefaultWeather_listeners
        addEventListener_keeps addEventListener_adds)

lemma second_DOMContentLoaded_started:
  "\<exists>ops. started (second_DOMContentLoaded env st) = started st @ ops"
proof (cases "isApiKeyConfigured env")
  case False
  then show ?thesis
    by (simp add: second_DOMContentLoaded_def checkApiKeyConfiguration_def showError_def)
next
  case True
  from loadDefaultWeather_started [where env = env and st = "initializeEventListeners st"]
  obtain ops where "started (loadDefaultWeather env (initializeEventListeners st)) =
     started (initializeEventListeners st) @
       (if navigator_geolocation env then Geolocation_request
        else Fetch_weather_by_city ''New York'') # ops"
    by blast
  with True show ?thesis
    by (simp add: second_DOMContentLoaded_def checkApiKeyConfiguration_def
          initializeEventListeners_def addEventListener_def)
qed

lemma second_DOMContentLoaded_listeners:
  "l \<in> set (listeners st) \<Longrightarrow> l \<in> set (listeners (second_DOMContentLoaded env st))"
  by (cases "isApiKeyConfigured env")
     (simp_all add: second_DOMContentLoaded_def checkApiKeyConfiguration_def showError_def
        loadDefaultWeather_listeners initializeEventListeners_def addEventListener_keeps)

lemma placeholder_startup:
  "DOMContentLoaded placeholder_env initial_state =
     initial_state
       \<lparr>els := initial_elements
          \<lparr>el_errorText :=
             ''Please configure your OpenWeatherMap API key in the script.js file. '' @
             ''Get your free API key at openweathermap.org'',
           el_errorMessage_hidden := False, el_loading_hidden := True\<rparr>,
        listeners := [SearchBtn_click_handleSearch, CityInput_keypress_first,
          LocationBtn_click_getCurrentLocation, CelsiusBtn_click_first, FahrenheitBtn_click_first],
        started := [Geolocation_request]\<rparr>"
  by (simp add: DOMContentLoaded_def first_DOMContentLoaded_def second_DOMContentLoaded_def
        loadDefaultWeather_def getCurrentLocation_def addEventListener_def
        checkApiKeyConfiguration_def isApiKeyConfigured_def placeholder_env_def
        initial_state_def showLoading_def showError_def Let_def)

lemma trim_Paris: "trim ''Paris'' = ''Paris''"
  by (simp add: trim_def is_space_def)

lemma placeholder_search:
  "dispatch placeholder_env (Click_searchBtn ''Paris'')
     (DOMContentLoaded placeholder_env initial_state) =
   showError (city_not_found_message ''Paris'')
     ((showLoading (DOMContentLoaded placeholder_env initial_state))
        \<lparr>started := [Geolocation_request, Fetch_weather_by_city ''Paris'']\<rparr>)"
proof -
  let ?st = "DOMContentLoaded placeholder_env initial_state"
  have city: "weather_by_city placeholder_env ''Paris'' = Not_ok"
    by (simp add: placeholder_env_def)
  have ls: "listeners ?st = [SearchBtn_click_handleSearch, CityInput_keypress_first,
          LocationBtn_click_getCurrentLocation, CelsiusBtn_click_first, FahrenheitBtn_click_first]"
    and ops: "started ?st = [Geolocation_request]"
    by (simp_all add: placeholder_startup)
  have "dispatch placeholder_env (Click_searchBtn ''Paris'') ?st =
          handleSearch placeholder_env ''Paris'' ?st"
    by (simp add: dispatch_def ls)
  also have "\<dots> = getWeatherByCity placeholder_env ''Paris'' ?st"
    by (simp add: handleSearch_def trim_Paris)
  also have "\<dots> = showError (city_not_found_message ''Paris'')
     ((showLoading ?st)\<lparr>started := [Geolocation_request, Fetch_weather_by_city ''Paris'']\<rparr>)"
    by (simp add: getWeatherByCity_def city Let_def showLoading_def ops)
  finally show ?thesis .
qed

text \<open>
  Claim C4 says that a missing or placeholder key stops every query at start-up. The
  first \<open>DOMContentLoaded\<close> listener does not look at the key: whatever the key is, the
  page load starts a geolocation request (or, without geolocation, the fetch for New
  York) and registers \<open>handleSearch\<close> on the search button. With the placeholder key,
  the load starts the geolocation request, and a click on the search button with the
  text Paris then starts the fetch for Paris.
\<close>

theorem C4_startup_check_does_not_stop_queries:
  "\<not> isApiKeyConfigured placeholder_env \<and>
   \<not> isApiKeyConfigured (placeholder_env\<lparr>API_CONFIG_key := None\<rparr>) \<and>
   started (DOMContentLoaded placeholder_env initial_state) = [Geolocation_request] \<and>
   SearchBtn_click_handleSearch \<in> set (listeners (DOMContentLoaded placeholder_env initial_state)) \<and>
   started (dispatch placeholder_env (Click_searchBtn ''Paris'')
              (DOMContentLoaded placeholder_env initial_state)) =
     [Geolocation_request, Fetch_weather_by_city ''Paris''] \<and>
   (\<exists>ops. started (DOMContentLoaded env st) =
      started st @
        (if navigator_geolocation env then Geolocation_request
         else Fetch_weather_by_city ''New York'') # ops) \<and>
   SearchBtn_click_handleSearch \<in> set (listeners (DOMContentLoaded env st))"
proof -
  have keys: "\<not> isApiKeyConfigured placeholder_env"
    "\<not> isApiKeyConfigured (placeholder_env\<lparr>API_CONFIG_key := None\<rparr>)"
    by (simp_all add: isApiKeyConfigured_def placeholder_env_def)
  have concrete: "started (DOMContentLoaded placeholder_env initial_state) = [Geolocation_request]"
    "SearchBtn_click_handleSearch \<in> set (listeners (DOMContentLoaded placeholder_env initial_state))"
    by (simp_all add: placeholder_startup)
  obtain ops1 where ops1: "started (first_DOMContentLoaded env st) =
      started st @
        (if navigator_geolocation env then Geolocation_request
         else Fetch_weather_by_city ''New York'') # ops1"
    using first_DOMContentLoaded_started by blast
  obtain ops2 where "started (second_DOMContentLoaded env (first_DOMContentLoaded env st)) =
      started (first_DOMContentLoaded env st) @ ops2"
    using second_DOMContentLoaded_started by blast
  with ops1 have general: "\<exists>ops. started (DOMContentLoaded env st) =
      started st @
        (if navigator_geolocation env then Geolocation_request
         else Fetch_weather_by_city ''New York'') # ops"
    by (simp add: DOMContentLoaded_def)
  have wired: "SearchBtn_click_handleSearch \<in> set (listeners (DOMContentLoaded env st))"
    unfolding DOMContentLoaded_def
    by (rule second_DOMContentLoaded_listeners) (rule first_DOMContentLoaded_listeners)
  have search: "started (dispatch placeholder_env (Click_searchBtn ''Paris'')
              (DOMContentLoaded placeholder_env initial_state)) =
     [Geolocation_request, Fetch_weather_by_city ''Paris'']"
    by (simp add: placeholder_search showError_def)
  from keys concrete search general wired show ?thesis by blast
qed

subsection \<open>Failure of the forecast fetch, and the refresh timer\<close>

text \<open>
  Claim C5. When the current-conditions fetch gives a payload and the forecast fetch does
  not (it rejects, its status is not a success, or its body does not parse),
  \<open>getWeatherByCoordinates\<close> only records the two requests and shows the error
  message: the stored payload is the one from before, and every page element other than
  the error text and the two visibility flags is as before. The same holds for a search
  by city name whose lookup succeeded.
\<close>

theorem C5_forecast_failure_fails_whole_query:
  "(weather_by_coordinates env la lo = Payload currentData \<and>
    (\<forall>forecastData. forecast_by_coordinates env la lo \<noteq> Payload forecastData) \<longrightarrow>
      getWeatherByCoordinates env la lo cityName st =
        showError ''Unable to fetch weather data. Please try again.''
          (st\<lparr>started := started st @
             [Fetch_weather_by_coordinates la lo, Fetch_forecast_by_coordinates la lo]\<rparr>) \<and>
      currentWeatherData (getWeatherByCoordinates env la lo cityName st) = currentWeatherData st \<and>
      els (getWeatherByCoordinates env la lo cityName st) =
        (els st)\<lparr>el_errorText := ''Unable to fetch weather data. Please try again.'',
                 el_errorMessage_hidden := False, el_loading_hidden := True\<rparr>) \<and>
   (weather_by_city env city = Payload data \<and>
    weather_by_coordinates env (coord_lat data) (coord_lon data) = Payload currentData \<and>
    (\<forall>forecastData.
       forecast_by_coordinates env (coord_lat data) (coord_lon data) \<noteq> Payload forecastData) \<longrightarrow>
      currentWeatherData (getWeatherByCity env city st) = currentWeatherData st \<and>
      els (getWeatherByCity env city st) =
        (els st)\<lparr>el_errorText := ''Unable to fetch weather data. Please try again.'',
                 el_errorMessage_hidden := False, el_loading_hidden := True\<rparr>)"
proof (intro conjI impI)
  assume a: "weather_by_coordinates env la lo = Payload currentData \<and>
    (\<forall>forecastData. forecast_by_coordinates env la lo \<noteq> Payload forecastData)"
  then have eq: "getWeatherByCoordinates env la lo cityName st =
        showError ''Unable to fetch weather data. Please try again.''
          (st\<lparr>started := started st @
             [Fetch_weather_by_coordinates la lo, Fetch_forecast_by_coordinates la lo]\<rparr>)"
    by (simp add: getWeatherByCoordinates_forecast_failure)
  then show "getWeatherByCoordinates env la lo cityName st =
        showError ''Unable to fetch weather data. Please try again.''
          (st\<lparr>started := started st @
             [Fetch_weather_by_coordinates la lo, Fetch_forecast_by_coordinates la lo]\<rparr>)" .
  show "currentWeatherData (getWeatherByCoordinates env la lo cityName st) = currentWeatherData st"
    by (simp add: eq showError_def)
  show "els (getWeatherByCoordinates env la lo cityName st) =
        (els st)\<lparr>el_errorText := ''Unable to fetch weather data. Please try again.'',
                 el_errorMessage_hidden := False, el_loading_hidden := True\<rparr>"
    by (simp add: eq showError_def)
next
  assume a: "weather_by_city env city = Payload data \<and>
    weather_by_coordinates env (coord_lat data) (coord_lon data) = Payload currentData \<and>
    (\<forall>forecastData.
       forecast_by_coordinates env (coord_lat data) (coord_lon data) \<noteq> Payload forecastData)"
  then have cur: "weather_by_coordinates env (coord_lat data) (coord_lon data) = Payload currentData"
    and fc: "\<forall>forecastData.
       forecast_by_coordinates env (coord_lat data) (coord_lon data) \<noteq> Payload forecastData"
    and city: "weather_by_city env city = Payload data"
    by simp_all
  note eq = getWeatherByCoordinates_forecast_failure [OF cur fc]
  show "currentWeatherData (getWeatherByCity env city st) = currentWeatherData st"
    by (simp add: getWeatherByCity_def city eq Let_def showError_def showLoading_def)
  show "els (getWeatherByCity env city st) =
        (els st)\<lparr>el_errorText := ''Unable to fetch weather data. Please try again.'',
                 el_errorMessage_hidden := False, el_loading_hidden := True\<rparr>"
    by (simp add: getWeatherByCity_def city eq Let_def showError_def showLoading_def)
qed

theorem C5_forecast_failure_fails_whole_query_witness:
  "weather_by_coordinates forecast_down_env 0 109.3 = Payload example_current \<and>
   forecast_by_coordinates forecast_down_env 0 109.3 = Not_ok \<and>
   currentWeatherData loaded_state = Some (example_current, example_forecast) \<and>
   currentWeatherData (getWeatherByCoordinates forecast_down_env 0 109.3 None loaded_state) =
     currentWeatherData loaded_state \<and>
   els (getWeatherByCoordinates forecast_down_env 0 109.3 None loaded_state) =
     (els loaded_state)\<lparr>el_errorText := ''Unable to fetch weather data. Please try again.'',
                 el_errorMessage_hidden := False, el_loading_hidden := True\<rparr> \<and>
   weather_by_city forecast_down_env ''Pontianak'' = Payload example_current \<and>
   currentWeatherData (getWeatherByCity forecast_down_env ''Pontianak'' loaded_state) =
     currentWeatherData loaded_state \<and>
   els (getWeatherByCity forecast_down_env ''Pontianak'' loaded_state) =
     (els loaded_state)\<lparr>el_errorText := ''Unable to fetch weather data. Please try again.'',
                 el_errorMessage_hidden := False, el_loading_hidden := True\<rparr>"
proof -
  have cur: "weather_by_coordinates forecast_down_env 0 109.3 = Payload example_current"
    and fc: "forecast_by_coordinates forecast_down_env 0 109.3 = Not_ok"
    by (simp_all add: forecast_down_env_def example_env_def)
  from cur fc have hyp: "weather_by_coordinates forecast_down_env 0 109.3 = Payload example_current \<and>
      (\<forall>forecastData.
        forecast_by_coordinates forecast_down_env 0 109.3 \<noteq> Payload forecastData)"
    by simp
  note imp = C5_forecast_failure_fails_whole_query
      [where env = forecast_down_env and la = 0 and lo = "109.3"
         and currentData = example_current and cityName = None and st = loaded_state,
       THEN conjunct1]
  from imp hyp have "getWeatherByCoordinates forecast_down_env 0 109.3 None loaded_state =
        showError ''Unable to fetch weather data. Please try again.''
          (loaded_state\<lparr>started := started loaded_state @
             [Fetch_weather_by_coordinates 0 109.3, Fetch_forecast_by_coordinates 0 109.3]\<rparr>) \<and>
      currentWeatherData (getWeatherByCoordinates forecast_down_env 0 109.3 None loaded_state) =
        currentWeatherData loaded_state \<and>
      els (getWeatherByCoordinates forecast_down_env 0 109.3 None loaded_state) =
        (els loaded_state)\<lparr>el_errorText := ''Unable to fetch weather data. Please try again.'',
                 el_errorMessage_hidden := False, el_loading_hidden := True\<rparr>"
    by (rule mp)
  moreover have "currentWeatherData loaded_state = Some (example_current, example_forecast)"
    by (simp add: loaded_state_eq)
  moreover have city: "weather_by_city forecast_down_env ''Pontianak'' = Payload example_current"
    by (simp add: forecast_down_env_def example_env_def)
  moreover have "currentWeatherData (getWeatherByCity forecast_down_env ''Pontianak'' loaded_state) =
        currentWeatherData loaded_state \<and>
      els (getWeatherByCity forecast_down_env ''Pontianak'' loaded_state) =
        (els loaded_state)\<lparr>el_errorText := ''Unable to fetch weather data. Please try again.'',
                 el_errorMessage_hidden := False, el_loading_hidden := True\<rparr>"
  proof -
    have coords: "coord_lat example_current = 0" "coord_lon example_current = 109.3"
      by (simp_all add: example_current_def)
    from city cur fc have hyp': "weather_by_city forecast_down_env ''Pontianak'' = Payload example_current \<and>
        weather_by_coordinates forecast_down_env (coord_lat example_current)
          (coord_lon example_current) = Payload example_current \<and>
        (\<forall>forecastData.
           forecast_by_coordinates forecast_down_env (coord_lat example_current)
             (coord_lon example_current) \<noteq> Payload forecastData)"
      by (simp add: coords)
    note imp' = C5_forecast_failure_fails_whole_query
      [where env = forecast_down_env and city = "''Pontianak''" and data = example_current
         and currentData = example_current and st = loaded_state,
       THEN conjunct2]
    from imp' hyp' show ?thesis by (rule mp)
  qed
  ultimately show ?thesis using cur fc by blast
qed

lemma truthy_iff: "truthy v \<longleftrightarrow> (\<exists>x. v = Some x \<and> x \<noteq> 0)"
  by (cases v) (simp_all add: truthy_def)

lemma autoRefreshTick_falsy:
  "\<not> (truthy (lat (currentLocation st)) \<and> truthy (lon (currentLocation st))) \<Longrightarrow>
   autoRefreshTick env st = st"
  unfolding autoRefreshTick_def by (rule if_not_P)

lemma autoRefreshTick_truthy:
  assumes "lat (currentLocation st) = Some la" and "lon (currentLocation st) = Some lo"
    and "la \<noteq> 0" and "lo \<noteq> 0"
  shows "autoRefreshTick env st = getWeatherByCoordinates env la lo None st"
  using assms by (simp add: autoRefreshTick_def truthy_def)

lemma position_success_currentLocation:
  "currentLocation (position_success env latitude longitude st) =
     \<lparr>lat = Some latitude, lon = Some longitude\<rparr>"
  by (simp add: position_success_def getWeatherByCoordinates_currentLocation)

text \<open>
  Claim C10. The refresh tick starts a fetch exactly when the stored latitude and the
  stored longitude are both truthy, that is, both are numbers other than zero, and then
  it is the query for the stored coordinates. With no location it leaves the state as it
  is, and so it does when the latitude or the longitude is zero: after the platform
  reported a position on the equator or on the prime meridian, which is then the stored
  location, the tick does nothing.
\<close>

theorem C10_refresh_only_for_truthy_coordinates:
  "(started (autoRefreshTick env st) \<noteq> started st \<longleftrightarrow>
      truthy (lat (currentLocation st)) \<and> truthy (lon (currentLocation st))) \<and>
   (truthy v \<longleftrightarrow> (\<exists>x. v = Some x \<and> x \<noteq> 0)) \<and>
   (\<forall>la lo. lat (currentLocation st) = Some la \<and> lon (currentLocation st) = Some lo \<and>
       la \<noteq> 0 \<and> lo \<noteq> 0 \<longrightarrow>
       autoRefreshTick env st = getWeatherByCoordinates env la lo None st) \<and>
   (lat (currentLocation st) = None \<or> lon (currentLocation st) = None \<longrightarrow>
      autoRefreshTick env st = st) \<and>
   (lat (currentLocation st) = Some 0 \<or> lon (currentLocation st) = Some 0 \<longrightarrow>
      autoRefreshTick env st = st) \<and>
   currentLocation (position_success env' 0 longitude st) = \<lparr>lat = Some 0, lon = Some longitude\<rparr> \<and>
   autoRefreshTick env (position_success env' 0 longitude st) =
     position_success env' 0 longitude st \<and>
   currentLocation (position_success env' latitude 0 st) = \<lparr>lat = Some latitude, lon = Some 0\<rparr> \<and>
   autoRefreshTick env (position_success env' latitude 0 st) =
     position_success env' latitude 0 st"
proof -
  have fetch_iff: "started (autoRefreshTick env st) \<noteq> started st \<longleftrightarrow>
      truthy (lat (currentLocation st)) \<and> truthy (lon (currentLocation st))"
  proof (cases "truthy (lat (currentLocation st)) \<and> truthy (lon (currentLocation st))")
    case False
    then show ?thesis by (simp add: autoRefreshTick_falsy)
  next
    case True
    then obtain la lo where l: "lat (currentLocation st) = Some la" "la \<noteq> 0"
      "lon (currentLocation st) = Some lo" "lo \<noteq> 0"
      by (auto simp: truthy_iff)
    obtain ops where "started (getWeatherByCoordinates env la lo None st) =
        started st @ Fetch_weather_by_coordinates la lo # ops"
      using getWeatherByCoordinates_started by blast
    with True l show ?thesis
      by (simp add: autoRefreshTick_truthy [where la = la and lo = lo])
  qed
  have none: "lat (currentLocation st) = None \<or> lon (currentLocation st) = None \<longrightarrow>
      autoRefreshTick env st = st"
    by (auto simp: autoRefreshTick_def truthy_def)
  have zero: "lat (currentLocation st) = Some 0 \<or> lon (currentLocation st) = Some 0 \<longrightarrow>
      autoRefreshTick env st = st"
    by (auto simp: autoRefreshTick_def truthy_def)
  have equator: "autoRefreshTick env (position_success env' 0 longitude st) =
     position_success env' 0 longitude st"
    by (rule autoRefreshTick_falsy) (simp add: position_success_currentLocation truthy_def)
  have meridian: "autoRefreshTick env (position_success env' latitude 0 st) =
     position_success env' latitude 0 st"
    by (rule autoRefreshTick_falsy) (simp add: position_success_currentLocation truthy_def)
  have truthy_coordinates: "\<forall>la lo. lat (currentLocation st) = Some la \<and>
       lon (currentLocation st) = Some lo \<and> la \<noteq> 0 \<and> lo \<noteq> 0 \<longrightarrow>
       autoRefreshTick env st = getWeatherByCoordinates env la lo None st"
    using autoRefreshTick_truthy by blast
  have t: "truthy v \<longleftrightarrow> (\<exists>x. v = Some x \<and> x \<noteq> 0)"
    by (rule truthy_iff)
  note loc1 = position_success_currentLocation [of env' 0 longitude st]
  note loc2 = position_success_currentLocation [of env' latitude 0 st]
  show ?thesis
    by (intro conjI) (fact fetch_iff t truthy_coordinates none zero loc1 equator loc2 meridian)+
qed

theorem C10_refresh_only_for_truthy_coordinates_witness:
  "lat (currentLocation initial_state) = None \<and>
   autoRefreshTick example_env initial_state = initial_state \<and>
   lat (currentLocation (position_success example_env 0 109.3 initial_state)) = Some 0 \<and>
   autoRefreshTick example_env (position_success example_env 0 109.3 initial_state) =
     position_success example_env 0 109.3 initial_state \<and>
   lat (currentLocation (position_success example_env 48.85 2.35 initial_state)) = Some 48.85 \<and>
   lon (currentLocation (position_success example_env 48.85 2.35 initial_state)) = Some 2.35 \<and>
   autoRefreshTick example_env (position_success example_env 48.85 2.35 initial_state) =
     getWeatherByCoordinates example_env 48.85 2.35 None
       (position_success example_env 48.85 2.35 initial_state)"
proof -
  have none: "lat (currentLocation initial_state) = None"
    by (simp add: initial_state_def)
  have zero: "lat (currentLocation (position_success example_env 0 109.3 initial_state)) = Some 0"
    by (simp add: position_success_currentLocation)
  have paris: "lat (currentLocation (position_success example_env 48.85 2.35 initial_state)) = Some 48.85"
    "lon (currentLocation (position_success example_env 48.85 2.35 initial_state)) = Some 2.35"
    by (simp_all add: position_success_currentLocation)
  have nz: "(48.85::real) \<noteq> 0" "(2.35::real) \<noteq> 0" by simp_all
  have tick_none: "autoRefreshTick example_env initial_state = initial_state"
    using C10_refresh_only_for_truthy_coordinates
            [where env = example_env and st = initial_state] none
    by blast
  have tick_zero: "autoRefreshTick example_env (position_success example_env 0 109.3 initial_state) =
     position_success example_env 0 109.3 initial_state"
    using C10_refresh_only_for_truthy_coordinates
            [where env = example_env
               and st = "position_success example_env 0 109.3 initial_state"] zero
    by blast
  have tick_paris: "autoRefreshTick example_env (position_success example_env 48.85 2.35 initial_state) =
     getWeatherByCoordinates example_env 48.85 2.35 None
       (position_success example_env 48.85 2.35 initial_state)"
    using C10_refresh_only_for_truthy_coordinates
            [where env = example_env
               and st = "position_success example_env 48.85 2.35 initial_state"] paris nz
    by blast
  from none zero paris tick_none tick_zero tick_paris show ?thesis
    by (intro conjI)
qed

end
